theory Spec2Isabelle
  imports Complex_Main "HOL-Library.Multiset"
begin

section \<open>Decision criteria over a profit matrix\<close>

text \<open>
  The repository holds two translation units, \<^verbatim>\<open>decision_criteria.cpp\<close> (the array-based
  variant, suffix \<open>_arr\<close> below) and \<^verbatim>\<open>decision_criterion.cpp\<close> (the generic-range-based
  variant, suffix \<open>_rng\<close>). Each defines \<^verbatim>\<open>setm::minimax\<close>, \<^verbatim>\<open>setm::savage\<close> and
  \<^verbatim>\<open>setm::hurwicz\<close>.

  The element type \<^verbatim>\<open>T\<close> is a linearly ordered type variable. Its arithmetic is \<^verbatim>\<open>T\<close>'s own:
  the operators \<^verbatim>\<open>-\<close>, \<^verbatim>\<open>+\<close>, \<^verbatim>\<open>*\<close> and the constant 1 that the code applies to values of
  \<^verbatim>\<open>T\<close> are the fields of a record \<open>T\<close> that every computing function takes, with no law
  assumed of them. A matrix \<^verbatim>\<open>std::array<std::array<T, columns>, rows>\<close> is a list of rows;
  the template parameters \<^verbatim>\<open>rows\<close> and \<^verbatim>\<open>columns\<close> are explicit arguments wherever the code
  reads them. Undefined behaviour of the source (dereferencing the end iterator that
  \<^verbatim>\<open>min_element\<close>/\<^verbatim>\<open>max_element\<close> return on an empty range, \<^verbatim>\<open>ranges::max\<close>/\<^verbatim>\<open>ranges::min\<close>
  of an empty range, an index past the end) is the value \<open>None\<close>. Values that are not ordered
  (NaN) are outside the model.
\<close>

subsection \<open>The data model\<close>

type_synonym 'a matrix = "'a list list"

definition is_matrix :: "nat \<Rightarrow> nat \<Rightarrow> 'a matrix \<Rightarrow> bool" where
  "is_matrix rows columns profits \<longleftrightarrow>
     length profits = rows \<and> (\<forall>row \<in> set profits. length row = columns)"

definition nonempty_matrix :: "nat \<Rightarrow> nat \<Rightarrow> 'a matrix \<Rightarrow> bool" where
  "nonempty_matrix rows columns profits \<longleftrightarrow>
     0 < rows \<and> 0 < columns \<and> is_matrix rows columns profits"

subsection \<open>The arithmetic of the element type\<close>

text \<open>
  \<open>minus_T\<close> is \<^verbatim>\<open>T\<close>'s \<^verbatim>\<open>operator-\<close>, \<open>plus_T\<close> its \<^verbatim>\<open>operator+\<close>, \<open>times_T\<close> its
  \<^verbatim>\<open>operator*\<close>, and \<open>one_T\<close> the literal \<^verbatim>\<open>1\<close> converted to \<^verbatim>\<open>T\<close>.
\<close>

record 'a arithmetic =
  minus_T :: "'a \<Rightarrow> 'a \<Rightarrow> 'a"
  plus_T :: "'a \<Rightarrow> 'a \<Rightarrow> 'a"
  times_T :: "'a \<Rightarrow> 'a \<Rightarrow> 'a"
  one_T :: 'a

text \<open>An element type whose operators are exact: no rounding, no overflow.\<close>

definition exact :: "'a::linordered_idom arithmetic" where
  "exact = \<lparr>minus_T = (\<lambda>a b. a - b), plus_T = (\<lambda>a b. a + b), times_T = (\<lambda>a b. a * b), one_T = 1\<rparr>"

text \<open>
  \<^verbatim>\<open>T = int\<close> where \<^verbatim>\<open>int\<close> has 32 bits and an overflowing operation wraps around in two's
  complement: the values are the integers from \<open>- 2 ^ 31\<close> to \<open>2 ^ 31 - 1\<close>.
\<close>

definition wrap32 :: "int \<Rightarrow> int" where
  "wrap32 x = (x + 2 ^ 31) mod 2 ^ 32 - 2 ^ 31"

definition int32 :: "int arithmetic" where
  "int32 = \<lparr>minus_T = (\<lambda>a b. wrap32 (a - b)), plus_T = (\<lambda>a b. wrap32 (a + b)),
             times_T = (\<lambda>a b. wrap32 (a * b)), one_T = 1\<rparr>"

text \<open>
  The largest finite \<^verbatim>\<open>double\<close>, \<^verbatim>\<open>DBL_MAX\<close>; \<^verbatim>\<open>std::numeric_limits<double>::lowest()\<close> is
  its negation.
\<close>

definition dbl_max :: rat where
  "dbl_max = 2 ^ 1024 - 2 ^ 971"

subsection \<open>The standard-library operations the code calls\<close>

text \<open>\<^verbatim>\<open>a[i]\<close> on a \<^verbatim>\<open>std::array\<close>: unchecked, so an index past the end is undefined.\<close>

definition subscript :: "'a list \<Rightarrow> nat \<Rightarrow> 'a option" where
  "subscript xs i = (if i < length xs then Some (xs ! i) else None)"

text \<open>
  \<^verbatim>\<open>std::ranges::max(r)\<close> keeps the running result and replaces it when
  \<^verbatim>\<open>result < x\<close>; \<^verbatim>\<open>std::ranges::min(r)\<close> replaces it when \<^verbatim>\<open>x < result\<close>. Both require a
  non-empty range.
\<close>

fun ranges_max :: "'a::linorder list \<Rightarrow> 'a option" where
  "ranges_max [] = None"
| "ranges_max (x # xs) = Some (foldl (\<lambda>result y. if result < y then y else result) x xs)"

fun ranges_min :: "'a::linorder list \<Rightarrow> 'a option" where
  "ranges_min [] = None"
| "ranges_min (x # xs) = Some (foldl (\<lambda>result y. if y < result then y else result) x xs)"

text \<open>
  \<^verbatim>\<open>*std::ranges::max_element(row)\<close> and \<^verbatim>\<open>*std::ranges::min_element(row)\<close>: the value under
  the iterator to the first greatest (smallest) element; on an empty row the iterator is
  the end iterator and the dereference is undefined.
\<close>

fun max_element :: "'a::linorder list \<Rightarrow> 'a option" where
  "max_element [] = None"
| "max_element (x # xs) = Some (foldl (\<lambda>best y. if best < y then y else best) x xs)"

fun min_element :: "'a::linorder list \<Rightarrow> 'a option" where
  "min_element [] = None"
| "min_element (x # xs) = Some (foldl (\<lambda>best y. if y < best then y else best) x xs)"

text \<open>\<^verbatim>\<open>std::max(a, b)\<close> is \<^verbatim>\<open>(a < b) ? b : a\<close>.\<close>

definition std_max :: "'a::linorder \<Rightarrow> 'a \<Rightarrow> 'a" where
  "std_max a b = (if a < b then b else a)"

text \<open>
  \<^verbatim>\<open>r | std::views::transform(f)\<close>, consumed by a reduction: \<open>f\<close> is applied to every
  element, and the whole is undefined as soon as one application is.
\<close>

primrec transform :: "('a \<Rightarrow> 'b option) \<Rightarrow> 'a list \<Rightarrow> 'b list option" where
  "transform f [] = Some []"
| "transform f (x # xs) =
     (case f x of
        None \<Rightarrow> None
      | Some y \<Rightarrow> (case transform f xs of None \<Rightarrow> None | Some ys \<Rightarrow> Some (y # ys)))"

subsection \<open>Minimax\<close>

text \<open>
  \<^verbatim>\<open>return std::ranges::max(profits | std::views::transform([](const auto& row) {
      return *std::ranges::min_element(row); }));\<close>
  The body is the same text in both files; it compares and does no arithmetic.
\<close>

definition minimax_arr :: "'a::linorder matrix \<Rightarrow> 'a option" where
  "minimax_arr profits =
     (case transform min_element profits of None \<Rightarrow> None | Some ms \<Rightarrow> ranges_max ms)"

definition minimax_rng :: "'a::linorder matrix \<Rightarrow> 'a option" where
  "minimax_rng profits =
     (case transform min_element profits of None \<Rightarrow> None | Some ms \<Rightarrow> ranges_max ms)"

subsection \<open>Savage\<close>

text \<open>
  The inner loop of \<^verbatim>\<open>savage\<close>:
  \<^verbatim>\<open>for(auto row{ 0uz }; row < rows; ++row)
      profits[row][col] = max_value - profits[row][col];\<close>
  \<open>profits\<close> is the by-value parameter, the working copy of the invocation; the
  subtraction is the one of \<^verbatim>\<open>T\<close>.
\<close>

function subtract_column ::
  "'a arithmetic \<Rightarrow> nat \<Rightarrow> nat \<Rightarrow> 'a \<Rightarrow> nat \<Rightarrow> 'a matrix \<Rightarrow> 'a matrix option" where
  "subtract_column T rows col max_value row profits =
     (if row < rows then
        (case subscript profits row of
           None \<Rightarrow> None
         | Some r \<Rightarrow>
             (case subscript r col of
                None \<Rightarrow> None
              | Some x \<Rightarrow>
                  subtract_column T rows col max_value (Suc row)
                    (profits[row := r[col := minus_T T max_value x]])))
      else Some profits)"
  by pat_completeness auto
termination
  by (relation "measure (\<lambda>(T, rows, col, max_value, row, profits). rows - row)") auto

text \<open>
  The outer loop, \<^verbatim>\<open>for(auto col{ 0uz }; col < columns; ++col)\<close>: the column maximum is
  \<^verbatim>\<open>std::ranges::max(profits | std::views::transform([col](const auto& row) { return row[col]; }))\<close>,
  read from the working copy in its current state, then the inner loop runs.
\<close>

function regret_columns ::
  "'a::linorder arithmetic \<Rightarrow> nat \<Rightarrow> nat \<Rightarrow> nat \<Rightarrow> 'a matrix \<Rightarrow> 'a matrix option" where
  "regret_columns T rows columns col profits =
     (if col < columns then
        (case transform (\<lambda>row. subscript row col) profits of
           None \<Rightarrow> None
         | Some column \<Rightarrow>
             (case ranges_max column of
                None \<Rightarrow> None
              | Some max_value \<Rightarrow>
                  (case subtract_column T rows col max_value 0 profits of
                     None \<Rightarrow> None
                   | Some profits' \<Rightarrow> regret_columns T rows columns (Suc col) profits')))
      else Some profits)"
  by pat_completeness auto
termination
  by (relation "measure (\<lambda>(T, rows, columns, col, profits). columns - col)") auto

text \<open>The regret transform is the whole column loop, started at column 0.\<close>

definition regret_transform ::
  "'a::linorder arithmetic \<Rightarrow> nat \<Rightarrow> nat \<Rightarrow> 'a matrix \<Rightarrow> 'a matrix option" where
  "regret_transform T rows columns profits = regret_columns T rows columns 0 profits"

text \<open>
  The final reduction,
  \<^verbatim>\<open>std::ranges::min(profits | std::views::transform([](const auto& row) {
      return *std::ranges::max_element(row); }))\<close>.
\<close>

definition min_of_row_maxima :: "'a::linorder matrix \<Rightarrow> 'a option" where
  "min_of_row_maxima profits =
     (case transform max_element profits of None \<Rightarrow> None | Some ms \<Rightarrow> ranges_min ms)"

text \<open>\<^verbatim>\<open>savage\<close> has the same body in both files.\<close>

definition savage_arr ::
  "'a::linorder arithmetic \<Rightarrow> nat \<Rightarrow> nat \<Rightarrow> 'a matrix \<Rightarrow> 'a option" where
  "savage_arr T rows columns profits =
     (case regret_transform T rows columns profits of
        None \<Rightarrow> None
      | Some regrets \<Rightarrow> min_of_row_maxima regrets)"

definition savage_rng ::
  "'a::linorder arithmetic \<Rightarrow> nat \<Rightarrow> nat \<Rightarrow> 'a matrix \<Rightarrow> 'a option" where
  "savage_rng T rows columns profits =
     (case regret_transform T rows columns profits of
        None \<Rightarrow> None
      | Some regrets \<Rightarrow> min_of_row_maxima regrets)"

text \<open>
  A call \<^verbatim>\<open>setm::savage(profits)\<close> seen from the caller. Objects live on a stack of
  matrices, an address is an index. The parameter is passed by value: the caller's matrix
  at address \<open>p\<close> is copied into a new object on top of the stack, the column loop writes
  its result into that object, the final reduction reads it, and the object is destroyed
  on return.
\<close>

definition call_savage ::
  "'a::linorder arithmetic \<Rightarrow> nat \<Rightarrow> nat \<Rightarrow> 'a matrix list \<Rightarrow> nat
     \<Rightarrow> 'a option \<times> 'a matrix list" where
  "call_savage T rows columns stack p =
     (case subscript stack p of
        None \<Rightarrow> (None, stack)
      | Some caller_matrix \<Rightarrow>
          (let q = length stack;
               entered = stack @ [caller_matrix]
           in case regret_transform T rows columns (entered ! q) of
                None \<Rightarrow> (None, entered)
              | Some regrets \<Rightarrow>
                  (let mutated = entered[q := regrets]
                   in (min_of_row_maxima (mutated ! q), take q mutated))))"

subsection \<open>Hurwicz\<close>

text \<open>
  Array-based variant: the running maximum starts at \<^verbatim>\<open>std::numeric_limits<T>::lowest()\<close>,
  a constant of the standard library that is the parameter \<open>lowest\<close> here, and every row
  updates it with \<^verbatim>\<open>std::max\<close>. The weighted sum
  \<^verbatim>\<open>coefficient * min_outcome + (1 - coefficient) * max_outcome\<close> is computed in \<^verbatim>\<open>T\<close>.
\<close>

fun hurwicz_loop :: "'a::linorder arithmetic \<Rightarrow> 'a \<Rightarrow> 'a \<Rightarrow> 'a matrix \<Rightarrow> 'a option" where
  "hurwicz_loop T coefficient max_value [] = Some max_value"
| "hurwicz_loop T coefficient max_value (row # rest) =
     (case min_element row of
        None \<Rightarrow> None
      | Some min_outcome \<Rightarrow>
          (case max_element row of
             None \<Rightarrow> None
           | Some max_outcome \<Rightarrow>
               (let hurwicz_value =
                      plus_T T (times_T T coefficient min_outcome)
                        (times_T T (minus_T T (one_T T) coefficient) max_outcome)
                in hurwicz_loop T coefficient (std_max max_value hurwicz_value) rest)))"

definition hurwicz_arr :: "'a::linorder arithmetic \<Rightarrow> 'a \<Rightarrow> 'a matrix \<Rightarrow> 'a \<Rightarrow> 'a option" where
  "hurwicz_arr T lowest profits coefficient = hurwicz_loop T coefficient lowest profits"

text \<open>
  Generic-range-based variant: \<^verbatim>\<open>std::ranges::max\<close> over the rows transformed to their
  weighted sums. The promotion of the row extrema to the coefficient's floating type is
  the identity here, elements and coefficient having one type.
\<close>

definition hurwicz_row :: "'a::linorder arithmetic \<Rightarrow> 'a \<Rightarrow> 'a list \<Rightarrow> 'a option" where
  "hurwicz_row T coefficient row =
     (case min_element row of
        None \<Rightarrow> None
      | Some min_outcome \<Rightarrow>
          (case max_element row of
             None \<Rightarrow> None
           | Some max_outcome \<Rightarrow>
               Some (plus_T T (times_T T coefficient min_outcome)
                       (times_T T (minus_T T (one_T T) coefficient) max_outcome))))"

definition hurwicz_rng :: "'a::linorder arithmetic \<Rightarrow> 'a matrix \<Rightarrow> 'a \<Rightarrow> 'a option" where
  "hurwicz_rng T rng coefficient =
     (case transform (hurwicz_row T coefficient) rng of
        None \<Rightarrow> None
      | Some vs \<Rightarrow> ranges_max vs)"

subsection \<open>The criteria as the specification words them\<close>

text \<open>Maximum over rows \<open>r\<close> of the minimum over columns \<open>c\<close> of \<open>M[r][c]\<close>.\<close>

definition spec_minimax :: "nat \<Rightarrow> nat \<Rightarrow> 'a::linorder matrix \<Rightarrow> 'a" where
  "spec_minimax rows columns M =
     Max (set (map (\<lambda>r. Min (set (map (\<lambda>c. M ! r ! c) [0..<columns]))) [0..<rows]))"

text \<open>
  The regret matrix: \<open>R[r][c]\<close> is the maximum over all rows \<open>r'\<close> of \<open>M[r'][c]\<close>, minus
  \<open>M[r][c]\<close>, every column maximum being taken in the original matrix \<open>M\<close> and the minus
  being the one of \<^verbatim>\<open>T\<close>.
\<close>

definition column_maximum :: "nat \<Rightarrow> 'a::linorder matrix \<Rightarrow> nat \<Rightarrow> 'a" where
  "column_maximum rows M c = Max (set (map (\<lambda>r'. M ! r' ! c) [0..<rows]))"

definition regret :: "'a::linorder arithmetic \<Rightarrow> nat \<Rightarrow> 'a matrix \<Rightarrow> nat \<Rightarrow> nat \<Rightarrow> 'a" where
  "regret T rows M r c = minus_T T (column_maximum rows M c) (M ! r ! c)"

definition regret_matrix ::
  "'a::linorder arithmetic \<Rightarrow> nat \<Rightarrow> nat \<Rightarrow> 'a matrix \<Rightarrow> 'a matrix" where
  "regret_matrix T rows columns M =
     map (\<lambda>r. map (\<lambda>c. regret T rows M r c) [0..<columns]) [0..<rows]"

text \<open>Minimum over rows \<open>r\<close> of the maximum over columns \<open>c\<close> of \<open>R[r][c]\<close>.\<close>

definition spec_savage :: "'a::linorder arithmetic \<Rightarrow> nat \<Rightarrow> nat \<Rightarrow> 'a matrix \<Rightarrow> 'a" where
  "spec_savage T rows columns M =
     Min (set (map (\<lambda>r. Max (set (map (\<lambda>c. regret T rows M r c) [0..<columns]))) [0..<rows]))"

text \<open>
  Maximum over rows \<open>r\<close> of \<open>\<alpha> \<cdot> min(row r) + (1 - \<alpha>) \<cdot> max(row r)\<close>, in the arithmetic of
  \<^verbatim>\<open>T\<close>, and the two boundary criteria: the maximum of the row minima is \<open>spec_minimax\<close>,
  the maximum of the row maxima is \<open>spec_maximax\<close>.
\<close>

definition row_minimum :: "nat \<Rightarrow> 'a::linorder matrix \<Rightarrow> nat \<Rightarrow> 'a" where
  "row_minimum columns M r = Min (set (map (\<lambda>c. M ! r ! c) [0..<columns]))"

definition row_maximum :: "nat \<Rightarrow> 'a::linorder matrix \<Rightarrow> nat \<Rightarrow> 'a" where
  "row_maximum columns M r = Max (set (map (\<lambda>c. M ! r ! c) [0..<columns]))"

definition weighted_row ::
  "'a::linorder arithmetic \<Rightarrow> nat \<Rightarrow> 'a matrix \<Rightarrow> 'a \<Rightarrow> nat \<Rightarrow> 'a" where
  "weighted_row T columns M \<alpha> r =
     plus_T T (times_T T \<alpha> (row_minimum columns M r))
       (times_T T (minus_T T (one_T T) \<alpha>) (row_maximum columns M r))"

definition spec_hurwicz ::
  "'a::linorder arithmetic \<Rightarrow> nat \<Rightarrow> nat \<Rightarrow> 'a matrix \<Rightarrow> 'a \<Rightarrow> 'a" where
  "spec_hurwicz T rows columns M \<alpha> = Max (set (map (weighted_row T columns M \<alpha>) [0..<rows]))"

definition spec_maximax :: "nat \<Rightarrow> nat \<Rightarrow> 'a::linorder matrix \<Rightarrow> 'a" where
  "spec_maximax rows columns M = Max (set (map (row_maximum columns M) [0..<rows]))"

text \<open>
  \<^verbatim>\<open>std::numeric_limits<T>::lowest()\<close> is the least finite value of \<open>T\<close>: it is below every
  finite entry of a matrix.
\<close>

definition lowest_below_entries :: "'a::linorder \<Rightarrow> 'a matrix \<Rightarrow> bool" where
  "lowest_below_entries lowest M \<longleftrightarrow> (\<forall>row \<in> set M. \<forall>x \<in> set row. lowest \<le> x)"

text \<open>The weighted sum of one row, from the row itself.\<close>

definition weighted_sum :: "'a::linorder arithmetic \<Rightarrow> 'a \<Rightarrow> 'a list \<Rightarrow> 'a" where
  "weighted_sum T \<alpha> row =
     plus_T T (times_T T \<alpha> (Min (set row))) (times_T T (minus_T T (one_T T) \<alpha>) (Max (set row)))"

text \<open>
  No subtraction of \<^verbatim>\<open>savage\<close> overflows on \<open>M\<close>: each difference of a column maximum and
  an entry of that column, computed in \<^verbatim>\<open>T\<close>, is the exact difference rounded by \<open>rnd\<close>, a
  monotone rounding that keeps 0 (the identity where \<^verbatim>\<open>T\<close> does not round).
\<close>

definition subtraction_faithful ::
  "'a::linordered_ab_group_add arithmetic \<Rightarrow> ('a \<Rightarrow> 'a) \<Rightarrow> nat \<Rightarrow> nat \<Rightarrow> 'a matrix
     \<Rightarrow> bool" where
  "subtraction_faithful T rnd rows columns M \<longleftrightarrow>
     mono rnd \<and> rnd 0 = 0 \<and>
     (\<forall>r \<in> set [0..<rows]. \<forall>c \<in> set [0..<columns].
        minus_T T (column_maximum rows M c) (M ! r ! c)
        = rnd (column_maximum rows M c - M ! r ! c))"

text \<open>
  Permuting the rows of a matrix by \<open>\<rho>\<close>: row \<open>r\<close> of the result is row \<open>\<rho> r\<close>. Permuting
  the columns by \<open>\<pi>\<close>: column \<open>c\<close> of the result is column \<open>\<pi> c\<close>. A permutation of
  \<open>n\<close> indices is a bijection of \<open>{..<n}\<close>.
\<close>

definition permutation_of :: "nat \<Rightarrow> (nat \<Rightarrow> nat) \<Rightarrow> bool" where
  "permutation_of n \<pi> \<longleftrightarrow> bij_betw \<pi> {..<n} {..<n}"

definition permute_rows :: "(nat \<Rightarrow> nat) \<Rightarrow> nat \<Rightarrow> 'a matrix \<Rightarrow> 'a matrix" where
  "permute_rows \<rho> rows M = map (\<lambda>r. M ! \<rho> r) [0..<rows]"

definition permute_columns :: "(nat \<Rightarrow> nat) \<Rightarrow> nat \<Rightarrow> 'a matrix \<Rightarrow> 'a matrix" where
  "permute_columns \<pi> columns M = map (\<lambda>row. map (\<lambda>c. row ! \<pi> c) [0..<columns]) M"

text \<open>
  The working copy of \<^verbatim>\<open>savage\<close> when the column loop reaches column \<open>col\<close>, seen from
  there on: the columns before \<open>col\<close> stay as they are, the others become regrets.
\<close>

definition regret_from ::
  "'a::linorder arithmetic \<Rightarrow> nat \<Rightarrow> nat \<Rightarrow> nat \<Rightarrow> 'a matrix \<Rightarrow> 'a matrix" where
  "regret_from T rows columns col P =
     map (\<lambda>r. map (\<lambda>c. if c < col then P ! r ! c else regret T rows P r c) [0..<columns])
       [0..<rows]"

section \<open>Properties\<close>

subsection \<open>The library reductions\<close>

lemma foldl_max_Max:
  fixes x :: "'a::linorder"
  shows "foldl (\<lambda>result y. if result < y then y else result) x xs = Max (insert x (set xs))"
proof (induction xs arbitrary: x)
  case Nil
  then show ?case by simp
next
  case (Cons a xs)
  have "Max (insert (if x < a then a else x) (set xs)) = Max (insert x (insert a (set xs)))"
    by (cases "set xs = {}") (auto simp: max_def)
  with Cons show ?case by simp
qed

lemma foldl_min_Min:
  fixes x :: "'a::linorder"
  shows "foldl (\<lambda>result y. if y < result then y else result) x xs = Min (insert x (set xs))"
proof (induction xs arbitrary: x)
  case Nil
  then show ?case by simp
next
  case (Cons a xs)
  have "Min (insert (if a < x then a else x) (set xs)) = Min (insert x (insert a (set xs)))"
    by (cases "set xs = {}") (auto simp: min_def)
  with Cons show ?case by simp
qed

lemma ranges_max_eq: "xs \<noteq> [] \<Longrightarrow> ranges_max xs = Some (Max (set xs))"
  by (cases xs) (simp_all add: foldl_max_Max)

lemma ranges_min_eq: "xs \<noteq> [] \<Longrightarrow> ranges_min xs = Some (Min (set xs))"
  by (cases xs) (simp_all add: foldl_min_Min)

lemma max_element_eq: "xs \<noteq> [] \<Longrightarrow> max_element xs = Some (Max (set xs))"
  by (cases xs) (simp_all add: foldl_max_Max)

lemma min_element_eq: "xs \<noteq> [] \<Longrightarrow> min_element xs = Some (Min (set xs))"
  by (cases xs) (simp_all add: foldl_min_Min)

lemma transform_map:
  "(\<And>x. x \<in> set xs \<Longrightarrow> f x = Some (g x)) \<Longrightarrow> transform f xs = Some (map g xs)"
  by (induction xs) simp_all

subsection \<open>Rows and columns by index\<close>

lemma matrix_rows_nonempty:
  "nonempty_matrix rows columns M \<Longrightarrow> row \<in> set M \<Longrightarrow> row \<noteq> []"
  by (auto simp: nonempty_matrix_def is_matrix_def)

lemma matrix_nonempty: "nonempty_matrix rows columns M \<Longrightarrow> M \<noteq> []"
  by (auto simp: nonempty_matrix_def is_matrix_def)

lemma row_by_index:
  assumes "is_matrix rows columns M" and "r < rows"
  shows "map (\<lambda>c. M ! r ! c) [0..<columns] = M ! r"
proof -
  have "length (M ! r) = columns"
    using assms by (simp add: is_matrix_def)
  then show ?thesis
    using map_nth [of "M ! r"] by simp
qed

lemma rows_by_index:
  assumes "is_matrix rows columns M"
  shows "map (\<lambda>r. f (map (\<lambda>c. M ! r ! c) [0..<columns])) [0..<rows] = map f M"
proof -
  have "map (\<lambda>r. f (map (\<lambda>c. M ! r ! c) [0..<columns])) [0..<rows]
      = map (\<lambda>r. f (M ! r)) [0..<rows]"
    using assms by (simp add: row_by_index)
  also have "\<dots> = map f (map (\<lambda>r. M ! r) [0..<length M])"
    using assms by (simp add: is_matrix_def)
  also have "\<dots> = map f M"
    by (simp only: map_nth)
  finally show ?thesis .
qed

subsection \<open>Minimax\<close>

lemma minimax_body_eq:
  assumes "nonempty_matrix rows columns M"
  shows "(case transform min_element M of None \<Rightarrow> None | Some ms \<Rightarrow> ranges_max ms)
         = Some (spec_minimax rows columns M)"
proof -
  have ne: "M \<noteq> []"
    using assms by (rule matrix_nonempty)
  have "transform min_element M = Some (map (\<lambda>row. Min (set row)) M)"
    using assms by (intro transform_map min_element_eq) (rule matrix_rows_nonempty)
  moreover have "ranges_max (map (\<lambda>row. Min (set row)) M)
      = Some (Max (set (map (\<lambda>row. Min (set row)) M)))"
    using ne by (intro ranges_max_eq) simp
  moreover have "spec_minimax rows columns M = Max (set (map (\<lambda>row. Min (set row)) M))"
    using assms unfolding spec_minimax_def nonempty_matrix_def
    by (simp only: rows_by_index [where f = "\<lambda>row. Min (set row)"])
  ultimately show ?thesis by simp
qed

text \<open>
  C1. For every non-empty rectangular matrix \<open>M\<close> (at least one row, every row non-empty,
  all rows of one length), \<open>minimax(M)\<close>, in either file, is the maximum over rows \<open>r\<close> of
  the minimum over columns \<open>c\<close> of \<open>M[r][c]\<close>.
\<close>

theorem minimax_is_max_of_row_minima:
  assumes "nonempty_matrix rows columns M"
  shows "minimax_arr M = Some (spec_minimax rows columns M)
       \<and> minimax_rng M = Some (spec_minimax rows columns M)"
  unfolding minimax_arr_def minimax_rng_def
  using minimax_body_eq [OF assms] by simp

theorem minimax_is_max_of_row_minima_witness:
  "nonempty_matrix 4 5
     [[15, 10, 0, -6, 17], [3, 14, 8, 9, 2], [1, 5, 14, 20, -3], [7, 19, 10, 2, 0::int]]
   \<and> minimax_arr
       [[15, 10, 0, -6, 17], [3, 14, 8, 9, 2], [1, 5, 14, 20, -3], [7, 19, 10, 2, 0::int]]
     = Some 2
   \<and> minimax_rng
       [[15, 10, 0, -6, 17], [3, 14, 8, 9, 2], [1, 5, 14, 20, -3], [7, 19, 10, 2, 0::int]]
     = Some 2"
proof -
  let ?M = "[[15, 10, 0, -6, 17], [3, 14, 8, 9, 2], [1, 5, 14, 20, -3], [7, 19, 10, 2, 0::int]]"
  have h: "nonempty_matrix 4 5 ?M"
    by (simp add: nonempty_matrix_def is_matrix_def)
  have v: "spec_minimax 4 5 ?M = 2"
    by code_simp
  show ?thesis
    using h minimax_is_max_of_row_minima [OF h] by (simp only: v simp_thms)
qed

subsection \<open>Savage\<close>

lemma map_by_index: "map (\<lambda>i. g (xs ! i)) [0..<length xs] = map g xs"
proof -
  have "map (\<lambda>i. g (xs ! i)) [0..<length xs] = map g (map (\<lambda>i. xs ! i) [0..<length xs])"
    by simp
  also have "\<dots> = map g xs"
    by (simp only: map_nth)
  finally show ?thesis .
qed

lemma subtract_column_eq:
  assumes "length profits = rows" and "\<forall>r \<in> set profits. col < length r" and "row \<le> rows"
  shows "subtract_column T rows col mv row profits
       = Some (take row profits @ map (\<lambda>r. r[col := minus_T T mv (r ! col)]) (drop row profits))"
  using assms
proof (induction T rows col mv row profits rule: subtract_column.induct)
  case (1 T rows col mv row profits)
  show ?case
  proof (cases "row < rows")
    case False
    with "1.prems" show ?thesis
      by (subst subtract_column.simps) simp
  next
    case True
    let ?r = "profits ! row"
    let ?p = "profits[row := ?r[col := minus_T T mv (?r ! col)]]"
    have in_range: "row < length profits"
      using True "1.prems" by simp
    then have col_ok: "col < length ?r"
      using "1.prems" by simp
    have s1: "subscript profits row = Some ?r"
      using in_range by (simp add: subscript_def)
    have s2: "subscript ?r col = Some (?r ! col)"
      using col_ok by (simp add: subscript_def)
    have len: "length ?p = rows"
      using "1.prems" by simp
    have cols: "\<forall>r \<in> set ?p. col < length r"
    proof
      fix r assume "r \<in> set ?p"
      then have "r \<in> insert (?r[col := minus_T T mv (?r ! col)]) (set profits)"
        using set_update_subset_insert by fastforce
      then show "col < length r"
        using "1.prems" col_ok by auto
    qed
    have "subtract_column T rows col mv (Suc row) ?p
        = Some (take (Suc row) ?p @ map (\<lambda>r. r[col := minus_T T mv (r ! col)]) (drop (Suc row) ?p))"
      using True by (intro "1.IH" [OF True s1 s2] len cols) simp
    moreover have "take (Suc row) ?p = take row profits @ [?r[col := minus_T T mv (?r ! col)]]"
      using in_range by (simp add: take_Suc_conv_app_nth)
    moreover have "drop (Suc row) ?p = drop (Suc row) profits"
      by simp
    moreover have "drop row profits = ?r # drop (Suc row) profits"
      using in_range by (simp add: Cons_nth_drop_Suc)
    ultimately show ?thesis
      using True s1 s2 by (subst subtract_column.simps) simp
  qed
qed

lemma subtract_whole_column:
  assumes "is_matrix rows columns P" and "col < columns"
  shows "subtract_column T rows col mv 0 P = Some (map (\<lambda>r. r[col := minus_T T mv (r ! col)]) P)"
  using assms subtract_column_eq [of P rows col 0 T mv] by (simp add: is_matrix_def)

lemma column_by_index:
  assumes "is_matrix rows columns P"
  shows "map (\<lambda>r. P ! r ! c) [0..<rows] = map (\<lambda>row. row ! c) P"
  using assms map_by_index [of "\<lambda>row. row ! c" P] by (simp add: is_matrix_def)

lemma column_read:
  assumes "is_matrix rows columns P" and "0 < rows" and "col < columns"
  shows "(case transform (\<lambda>row. subscript row col) P of
            None \<Rightarrow> None | Some column \<Rightarrow> ranges_max column)
         = Some (column_maximum rows P col)"
proof -
  have "transform (\<lambda>row. subscript row col) P = Some (map (\<lambda>row. row ! col) P)"
    using assms by (intro transform_map) (simp add: subscript_def is_matrix_def)
  moreover have "map (\<lambda>row. row ! col) P \<noteq> []"
    using assms by (auto simp: is_matrix_def)
  ultimately show ?thesis
    using assms by (simp add: ranges_max_eq column_maximum_def column_by_index del: set_map)
qed

lemma regret_from_step:
  fixes T :: "'a::linorder arithmetic"
  assumes "is_matrix rows columns P" and "col < columns"
  defines "P' \<equiv> map (\<lambda>r. r[col := minus_T T (column_maximum rows P col) (r ! col)]) P"
  shows "regret_from T rows columns (Suc col) P' = regret_from T rows columns col P"
proof -
  have entry: "P' ! r ! c = (if c = col then minus_T T (column_maximum rows P col) (P ! r ! col) else P ! r ! c)"
    if "r < rows" and "c < columns" for r c
    using that assms by (simp add: is_matrix_def P'_def)
  have colmax: "column_maximum rows P' c = column_maximum rows P c" if "c < columns" and "c \<noteq> col" for c
  proof -
    have "map (\<lambda>r'. P' ! r' ! c) [0..<rows] = map (\<lambda>r'. P ! r' ! c) [0..<rows]"
      using that by (intro map_cong refl) (simp add: entry)
    then show ?thesis
      by (simp only: column_maximum_def)
  qed
  have "(if c < Suc col then P' ! r ! c else regret T rows P' r c)
      = (if c < col then P ! r ! c else regret T rows P r c)"
    if "r < rows" and "c < columns" for r c
    using that by (simp add: entry colmax regret_def less_Suc_eq)
  then show ?thesis
    unfolding regret_from_def by (intro map_cong refl) simp
qed

lemma regret_from_done:
  assumes "is_matrix rows columns P"
  shows "regret_from T rows columns columns P = P"
proof -
  have "regret_from T rows columns columns P
      = map (\<lambda>r. (\<lambda>row. row) (map (\<lambda>c. P ! r ! c) [0..<columns])) [0..<rows]"
    unfolding regret_from_def by (intro map_cong refl) simp
  also have "\<dots> = map (\<lambda>row. row) P"
    using assms by (rule rows_by_index)
  finally show ?thesis by simp
qed

lemma regret_columns_eq:
  assumes "is_matrix rows columns P" and "0 < rows" and "col \<le> columns"
  shows "regret_columns T rows columns col P = Some (regret_from T rows columns col P)"
  using assms
proof (induction T rows columns col P rule: regret_columns.induct)
  case (1 T rows columns col P)
  show ?case
  proof (cases "col < columns")
    case False
    with "1.prems" show ?thesis
      by (subst regret_columns.simps) (simp add: regret_from_done)
  next
    case True
    let ?mv = "column_maximum rows P col"
    let ?P' = "map (\<lambda>r. r[col := minus_T T ?mv (r ! col)]) P"
    have t: "transform (\<lambda>row. subscript row col) P = Some (map (\<lambda>row. row ! col) P)"
      using "1.prems" True by (intro transform_map) (simp add: subscript_def is_matrix_def)
    have m: "ranges_max (map (\<lambda>row. row ! col) P) = Some ?mv"
      using column_read [OF "1.prems"(1,2) True] by (simp add: t)
    have s: "subtract_column T rows col ?mv 0 P = Some ?P'"
      using "1.prems"(1) True by (rule subtract_whole_column)
    have mat: "is_matrix rows columns ?P'"
      using "1.prems" by (simp add: is_matrix_def)
    have "regret_columns T rows columns (Suc col) ?P' = Some (regret_from T rows columns (Suc col) ?P')"
      using True "1.prems" by (intro "1.IH" [OF True t m s] mat) simp_all
    then show ?thesis
      using True t m s "1.prems" by (subst regret_columns.simps) (simp add: regret_from_step)
  qed
qed

lemma regret_transform_eq:
  assumes "nonempty_matrix rows columns M"
  shows "regret_transform T rows columns M = Some (regret_matrix T rows columns M)"
proof -
  have "regret_from T rows columns 0 M = regret_matrix T rows columns M"
    by (simp add: regret_from_def regret_matrix_def)
  then show ?thesis
    using assms regret_columns_eq [of rows columns M 0 T]
    by (simp add: regret_transform_def nonempty_matrix_def)
qed

lemma min_of_row_maxima_regret:
  assumes "0 < rows" and "0 < columns"
  shows "min_of_row_maxima (regret_matrix T rows columns M) = Some (spec_savage T rows columns M)"
proof -
  let ?R = "regret_matrix T rows columns M"
  have "transform max_element ?R = Some (map (\<lambda>row. Max (set row)) ?R)"
    using assms by (intro transform_map max_element_eq) (auto simp: regret_matrix_def)
  moreover have "map (\<lambda>row. Max (set row)) ?R \<noteq> []"
    using assms by (simp add: regret_matrix_def)
  moreover have "map (\<lambda>row. Max (set row)) ?R
      = map (\<lambda>r. Max (set (map (\<lambda>c. regret T rows M r c) [0..<columns]))) [0..<rows]"
    by (simp add: regret_matrix_def comp_def del: set_map)
  ultimately show ?thesis
    by (simp add: min_of_row_maxima_def ranges_min_eq spec_savage_def del: set_map)
qed

lemma savage_body_eq:
  assumes "nonempty_matrix rows columns M"
  shows "(case regret_transform T rows columns M of
            None \<Rightarrow> None | Some regrets \<Rightarrow> min_of_row_maxima regrets)
         = Some (spec_savage T rows columns M)"
  using assms
  by (simp add: regret_transform_eq min_of_row_maxima_regret nonempty_matrix_def)

text \<open>
  C2. For every non-empty rectangular matrix \<open>M\<close>, \<open>savage(M)\<close>, in either file, is the
  minimum over rows \<open>r\<close> of the maximum over columns \<open>c\<close> of \<open>R[r][c]\<close>, where the regret
  matrix \<open>R\<close> has \<open>R[r][c]\<close> equal to the maximum over all rows \<open>r'\<close> of \<open>M[r'][c]\<close> minus
  \<open>M[r][c]\<close>, every column maximum being that of the original matrix and the minus being
  the subtraction of \<^verbatim>\<open>T\<close>, whatever it is; the column loop produces exactly \<open>R\<close>.
\<close>

theorem savage_is_min_of_max_regret:
  assumes "nonempty_matrix rows columns M"
  shows "regret_transform T rows columns M = Some (regret_matrix T rows columns M)
       \<and> savage_arr T rows columns M = Some (spec_savage T rows columns M)
       \<and> savage_rng T rows columns M = Some (spec_savage T rows columns M)"
  unfolding savage_arr_def savage_rng_def
  using regret_transform_eq [OF assms] savage_body_eq [OF assms] by simp

theorem savage_is_min_of_max_regret_witness:
  "nonempty_matrix 4 5
     [[15, 10, 0, -6, 17], [3, 14, 8, 9, 2], [1, 5, 14, 20, -3], [7, 19, 10, 2, 0::int]]
   \<and> regret_transform exact 4 5
       [[15, 10, 0, -6, 17], [3, 14, 8, 9, 2], [1, 5, 14, 20, -3], [7, 19, 10, 2, 0::int]]
     = Some [[0, 9, 14, 26, 0], [12, 5, 6, 11, 15], [14, 14, 0, 0, 20], [8, 0, 4, 18, 17]]
   \<and> savage_arr exact 4 5
       [[15, 10, 0, -6, 17], [3, 14, 8, 9, 2], [1, 5, 14, 20, -3], [7, 19, 10, 2, 0::int]]
     = Some 15
   \<and> savage_rng exact 4 5
       [[15, 10, 0, -6, 17], [3, 14, 8, 9, 2], [1, 5, 14, 20, -3], [7, 19, 10, 2, 0::int]]
     = Some 15"
proof -
  let ?M = "[[15, 10, 0, -6, 17], [3, 14, 8, 9, 2], [1, 5, 14, 20, -3], [7, 19, 10, 2, 0::int]]"
  have h: "nonempty_matrix 4 5 ?M"
    by (simp add: nonempty_matrix_def is_matrix_def)
  have r: "regret_matrix exact 4 5 ?M
         = [[0, 9, 14, 26, 0], [12, 5, 6, 11, 15], [14, 14, 0, 0, 20], [8, 0, 4, 18, 17]]"
    by code_simp
  have v: "spec_savage exact 4 5 ?M = 15"
    by code_simp
  show ?thesis
    using h savage_is_min_of_max_regret [OF h] by (simp only: r v simp_thms)
qed

subsection \<open>Hurwicz\<close>

lemma upt_2: "[0..<2] = [0, 1]"
  by (simp add: upt_rec)

lemma upt_3: "[0..<3] = [0, 1, 2]"
  by (simp add: upt_rec)

lemma upt_4: "[0..<4] = [0, 1, 2, 3]"
  by (simp add: upt_rec)

lemma upt_5: "[0..<5] = [0, 1, 2, 3, 4]"
  by (simp add: upt_rec)

lemma row_extrema_by_index:
  assumes "is_matrix rows columns M" and "r < rows"
  shows "row_minimum columns M r = Min (set (M ! r))"
    and "row_maximum columns M r = Max (set (M ! r))"
  using row_by_index [OF assms] by (simp_all only: row_minimum_def row_maximum_def)

lemma weighted_row_by_index:
  assumes "is_matrix rows columns M" and "r < rows"
  shows "weighted_row T columns M \<alpha> r = weighted_sum T \<alpha> (M ! r)"
  using row_extrema_by_index [OF assms] by (simp add: weighted_row_def weighted_sum_def)

lemma weighted_rows_by_index:
  assumes "is_matrix rows columns M"
  shows "map (weighted_row T columns M \<alpha>) [0..<rows] = map (weighted_sum T \<alpha>) M"
proof -
  have "map (weighted_row T columns M \<alpha>) [0..<rows] = map (\<lambda>r. weighted_sum T \<alpha> (M ! r)) [0..<rows]"
    using assms by (intro map_cong refl) (simp add: weighted_row_by_index)
  also have "\<dots> = map (weighted_sum T \<alpha>) M"
    using assms map_by_index [of "weighted_sum T \<alpha>" M] by (simp add: is_matrix_def)
  finally show ?thesis .
qed

lemma hurwicz_row_eq: "row \<noteq> [] \<Longrightarrow> hurwicz_row T \<alpha> row = Some (weighted_sum T \<alpha> row)"
  by (simp add: hurwicz_row_def min_element_eq max_element_eq weighted_sum_def)

lemma hurwicz_rng_eq:
  assumes "nonempty_matrix rows columns M"
  shows "hurwicz_rng T M \<alpha> = Some (spec_hurwicz T rows columns M \<alpha>)"
proof -
  have "transform (hurwicz_row T \<alpha>) M = Some (map (weighted_sum T \<alpha>) M)"
    using assms by (intro transform_map hurwicz_row_eq) (rule matrix_rows_nonempty)
  moreover have "map (weighted_sum T \<alpha>) M \<noteq> []"
    using matrix_nonempty [OF assms] by simp
  moreover have "map (weighted_row T columns M \<alpha>) [0..<rows] = map (weighted_sum T \<alpha>) M"
    using assms by (intro weighted_rows_by_index) (simp add: nonempty_matrix_def)
  ultimately show ?thesis
    by (simp add: hurwicz_rng_def ranges_max_eq spec_hurwicz_def del: set_map)
qed

lemma std_max_eq: "std_max a b = max a b"
  by (auto simp: std_max_def max_def)

lemma hurwicz_loop_eq:
  assumes "\<forall>row \<in> set M. row \<noteq> []"
  shows "hurwicz_loop T \<alpha> acc M = Some (Max (insert acc (set (map (weighted_sum T \<alpha>) M))))"
  using assms
proof (induction M arbitrary: acc)
  case Nil
  then show ?case by simp
next
  case (Cons row M)
  have step: "hurwicz_loop T \<alpha> acc (row # M) = hurwicz_loop T \<alpha> (max acc (weighted_sum T \<alpha> row)) M"
    using Cons.prems
    by (simp add: min_element_eq max_element_eq std_max_eq weighted_sum_def)
  have "Max (insert (max acc (weighted_sum T \<alpha> row)) (set (map (weighted_sum T \<alpha>) M)))
      = Max (insert acc (insert (weighted_sum T \<alpha> row) (set (map (weighted_sum T \<alpha>) M))))"
    by (cases "M = []") (simp_all add: max.assoc del: set_map)
  moreover have "hurwicz_loop T \<alpha> (max acc (weighted_sum T \<alpha> row)) M
      = Some (Max (insert (max acc (weighted_sum T \<alpha> row)) (set (map (weighted_sum T \<alpha>) M))))"
    using Cons.prems by (intro Cons.IH) simp
  ultimately show ?case
    by (simp only: step list.map list.set)
qed

lemma hurwicz_arr_eq_general:
  assumes "nonempty_matrix rows columns M"
  shows "hurwicz_arr T lowest M \<alpha>
       = Some (Max (insert lowest (set (map (weighted_row T columns M \<alpha>) [0..<rows]))))"
proof -
  have "\<forall>row \<in> set M. row \<noteq> []"
    using assms by (auto dest: matrix_rows_nonempty)
  moreover have "map (weighted_row T columns M \<alpha>) [0..<rows] = map (weighted_sum T \<alpha>) M"
    using assms by (intro weighted_rows_by_index) (simp add: nonempty_matrix_def)
  ultimately show ?thesis
    by (simp add: hurwicz_arr_def hurwicz_loop_eq del: set_map)
qed

lemma hurwicz_arr_max_lowest:
  assumes "nonempty_matrix rows columns M"
  shows "hurwicz_arr T lowest M \<alpha> = Some (max lowest (spec_hurwicz T rows columns M \<alpha>))"
proof -
  have "set (map (weighted_row T columns M \<alpha>) [0..<rows]) \<noteq> {}"
    using assms by (simp add: nonempty_matrix_def)
  then show ?thesis
    using hurwicz_arr_eq_general [OF assms]
    by (simp add: spec_hurwicz_def del: set_map set_upt)
qed

lemma spec_minimax_rows:
  "spec_minimax rows columns M = Max (set (map (row_minimum columns M) [0..<rows]))"
proof -
  have "row_minimum columns M = (\<lambda>r. Min (set (map (\<lambda>c. M ! r ! c) [0..<columns])))"
    by (rule ext) (simp only: row_minimum_def)
  then show ?thesis
    by (simp only: spec_minimax_def)
qed

lemma spec_hurwicz_one:
  "spec_hurwicz exact rows columns M 1 = spec_minimax rows columns M"
proof -
  have "weighted_row exact columns M 1 = row_minimum columns M"
    by (rule ext) (simp add: weighted_row_def exact_def)
  then show ?thesis
    by (simp only: spec_hurwicz_def spec_minimax_rows)
qed

lemma spec_hurwicz_zero:
  "spec_hurwicz exact rows columns M 0 = spec_maximax rows columns M"
proof -
  have "weighted_row exact columns M 0 = row_maximum columns M"
    by (rule ext) (simp add: weighted_row_def exact_def)
  then show ?thesis
    by (simp only: spec_hurwicz_def spec_maximax_def)
qed

lemma lowest_le_extrema:
  assumes "nonempty_matrix rows columns M" and "lowest_below_entries lowest M"
  shows "lowest \<le> spec_minimax rows columns M"
    and "lowest \<le> spec_maximax rows columns M"
proof -
  have mat: "is_matrix rows columns M" and first: "0 < rows"
    using assms(1) by (simp_all add: nonempty_matrix_def)
  have mem: "M ! 0 \<in> set M"
    using mat first by (simp add: is_matrix_def)
  then have ne: "set (M ! 0) \<noteq> {}"
    using matrix_rows_nonempty [OF assms(1)] by simp
  have low_min: "lowest \<le> row_minimum columns M 0"
    using assms(2) mem ne by (simp add: lowest_below_entries_def row_extrema_by_index [OF mat first])
  have "Min (set (M ! 0)) \<le> Max (set (M ! 0))"
    using ne by (intro Min_le Max_in) simp_all
  with low_min have low_max: "lowest \<le> row_maximum columns M 0"
    by (simp add: row_extrema_by_index [OF mat first])
  have "row_minimum columns M 0 \<le> Max (set (map (row_minimum columns M) [0..<rows]))"
    using first by (intro Max_ge) simp_all
  with low_min show "lowest \<le> spec_minimax rows columns M"
    by (simp only: spec_minimax_rows)
  have "row_maximum columns M 0 \<le> Max (set (map (row_maximum columns M) [0..<rows]))"
    using first by (intro Max_ge) simp_all
  with low_max show "lowest \<le> spec_maximax rows columns M"
    by (simp only: spec_maximax_def)
qed

lemma dbl_max_positive: "0 < dbl_max"
  by (simp add: dbl_max_def)

lemma hurwicz_below_lowest:
  fixes d :: "'a::linordered_idom"
  assumes "0 < d"
  shows "hurwicz_arr exact (- d) [[- d, d]] 2 = Some (- d)"
    and "hurwicz_rng exact [[- d, d]] 2 = Some (- (3 * d))"
    and "spec_hurwicz exact 1 2 [[- d, d]] 2 = - (3 * d)"
    and "- (3 * d) < - d"
proof -
  have small: "- d < d" and below: "- (3 * d) < - d"
    using assms by simp_all
  have sum: "2 * (- d) + (1 - 2) * d = - (3 * d)"
    by (simp add: algebra_simps)
  have lo: "min_element [- d, d] = Some (- d)" and hi: "max_element [- d, d] = Some d"
    using small by simp_all
  have row: "hurwicz_row exact 2 [- d, d] = Some (- (3 * d))"
    unfolding hurwicz_row_def lo hi exact_def using sum by simp
  have keep: "std_max (- d) (- (3 * d)) = - d"
    using below by (simp add: std_max_def)
  have "hurwicz_loop exact 2 (- d) [[- d, d]] = Some (std_max (- d) (- (3 * d)))"
    unfolding hurwicz_loop.simps lo hi exact_def using sum by simp
  then show "hurwicz_arr exact (- d) [[- d, d]] 2 = Some (- d)"
    by (simp only: hurwicz_arr_def keep)
  show "hurwicz_rng exact [[- d, d]] 2 = Some (- (3 * d))"
    by (simp add: hurwicz_rng_def row)
  have minimum: "row_minimum 2 [[- d, d]] 0 = - d" and maximum: "row_maximum 2 [[- d, d]] 0 = d"
    using small by (simp_all add: row_minimum_def row_maximum_def upt_2 min_def max_def)
  have "weighted_row exact 2 [[- d, d]] 2 0 = - (3 * d)"
    unfolding weighted_row_def minimum maximum exact_def using sum by simp
  then show "spec_hurwicz exact 1 2 [[- d, d]] 2 = - (3 * d)"
    by (simp add: spec_hurwicz_def)
  show "- (3 * d) < - d"
    by (rule below)
qed

text \<open>
  C3. As stated, for every coefficient, the claim fails for the array-based variant: with
  \<^verbatim>\<open>T = double\<close>, the matrix \<^verbatim>\<open>{{-DBL_MAX, DBL_MAX}}\<close> and the coefficient 2, the weighted
  sum of the only row is below \<^verbatim>\<open>numeric_limits<double>::lowest()\<close>, and the array-based
  \<open>hurwicz\<close> returns \<^verbatim>\<open>lowest()\<close>, the initial value of its running maximum, not the maximum
  of the weighted row sums.
\<close>

theorem hurwicz_arr_keeps_lowest_counterexample:
  "nonempty_matrix 1 2 [[- dbl_max, dbl_max]]
   \<and> hurwicz_arr exact (- dbl_max) [[- dbl_max, dbl_max]] 2 = Some (- dbl_max)
   \<and> spec_hurwicz exact 1 2 [[- dbl_max, dbl_max]] 2 = - (3 * dbl_max)
   \<and> hurwicz_arr exact (- dbl_max) [[- dbl_max, dbl_max]] 2
     \<noteq> Some (spec_hurwicz exact 1 2 [[- dbl_max, dbl_max]] 2)"
proof -
  note at = hurwicz_below_lowest [OF dbl_max_positive]
  have "nonempty_matrix 1 2 [[- dbl_max, dbl_max]]"
    by (simp add: nonempty_matrix_def is_matrix_def)
  moreover have "Some (- dbl_max) \<noteq> Some (- (3 * dbl_max))"
    using at(4) by simp
  ultimately show ?thesis
    by (simp only: at(1,3) simp_thms)
qed

text \<open>
  C3, amended. For every non-empty rectangular matrix \<open>M\<close> and every coefficient \<open>\<alpha>\<close>, inside
  or outside \<open>[0, 1]\<close> (no branch of either body looks at its range), whatever the arithmetic
  of \<^verbatim>\<open>T\<close>: the generic-range-based \<open>hurwicz(M, \<alpha>)\<close> is the maximum over rows \<open>r\<close> of
  \<open>\<alpha> \<cdot> min(row r) + (1 - \<alpha>) \<cdot> max(row r)\<close>; the array-based \<open>hurwicz(M, \<alpha>)\<close> is the greater of
  \<^verbatim>\<open>numeric_limits<T>::lowest()\<close> and that maximum, hence that maximum whenever \<^verbatim>\<open>lowest()\<close>
  is not above it.
\<close>

theorem hurwicz_is_max_of_weighted_rows:
  assumes "nonempty_matrix rows columns M"
  shows "hurwicz_rng T M \<alpha> = Some (spec_hurwicz T rows columns M \<alpha>)
       \<and> hurwicz_arr T lowest M \<alpha> = Some (max lowest (spec_hurwicz T rows columns M \<alpha>))
       \<and> (lowest \<le> spec_hurwicz T rows columns M \<alpha>
            \<longrightarrow> hurwicz_arr T lowest M \<alpha> = Some (spec_hurwicz T rows columns M \<alpha>))"
proof -
  have "hurwicz_rng T M \<alpha> = Some (spec_hurwicz T rows columns M \<alpha>)"
    using assms by (rule hurwicz_rng_eq)
  moreover have "hurwicz_arr T lowest M \<alpha> = Some (max lowest (spec_hurwicz T rows columns M \<alpha>))"
    using assms by (rule hurwicz_arr_max_lowest)
  ultimately show ?thesis
    by (simp add: max_absorb2)
qed

theorem hurwicz_is_max_of_weighted_rows_witness:
  "nonempty_matrix 4 5
     [[15, 10, 0, -6, 17], [3, 14, 8, 9, 2], [1, 5, 14, 20, -3], [7, 19, 10, 2, 0::rat]]
   \<and> - dbl_max \<le> - 10
   \<and> hurwicz_rng exact
       [[15, 10, 0, -6, 17], [3, 14, 8, 9, 2], [1, 5, 14, 20, -3], [7, 19, 10, 2, 0::rat]] 2
     = Some (- 10)
   \<and> hurwicz_arr exact (- dbl_max)
       [[15, 10, 0, -6, 17], [3, 14, 8, 9, 2], [1, 5, 14, 20, -3], [7, 19, 10, 2, 0::rat]] 2
     = Some (- 10)"
proof -
  let ?M = "[[15, 10, 0, -6, 17], [3, 14, 8, 9, 2], [1, 5, 14, 20, -3], [7, 19, 10, 2, 0::rat]]"
  have h: "nonempty_matrix 4 5 ?M"
    by (simp add: nonempty_matrix_def is_matrix_def)
  have l: "- dbl_max \<le> - 10"
    by (simp add: dbl_max_def)
  have v: "spec_hurwicz exact 4 5 ?M 2 = - 10"
    by (simp add: spec_hurwicz_def weighted_row_def row_minimum_def row_maximum_def exact_def
        upt_4 upt_5)
  note t = hurwicz_is_max_of_weighted_rows [OF h, of exact 2 "- dbl_max", unfolded v]
  show ?thesis
    using h l t by metis
qed

text \<open>
  C6. For every non-empty rectangular matrix \<open>M\<close>, \<open>hurwicz(M, 1)\<close> is the maximum over rows
  of the row minimum, that is \<open>minimax(M)\<close>, and \<open>hurwicz(M, 0)\<close> is the maximum over rows of
  the row maximum. For the array-based variant, \<^verbatim>\<open>numeric_limits<T>::lowest()\<close> is below
  the entries of \<open>M\<close>. At the coefficients 1 and 0 the arithmetic is exact.
\<close>

theorem hurwicz_boundary_coefficients:
  assumes "nonempty_matrix rows columns M"
    and "lowest_below_entries lowest M"
  shows "hurwicz_arr exact lowest M 1 = Some (spec_minimax rows columns M)
       \<and> hurwicz_rng exact M 1 = Some (spec_minimax rows columns M)
       \<and> hurwicz_arr exact lowest M 1 = minimax_arr M
       \<and> hurwicz_rng exact M 1 = minimax_rng M
       \<and> hurwicz_arr exact lowest M 0 = Some (spec_maximax rows columns M)
       \<and> hurwicz_rng exact M 0 = Some (spec_maximax rows columns M)"
proof -
  note low = lowest_le_extrema [OF assms]
  have "hurwicz_arr exact lowest M 1 = Some (spec_minimax rows columns M)"
    using hurwicz_arr_max_lowest [OF assms(1), of exact lowest 1] low(1)
    by (simp only: spec_hurwicz_one max_absorb2)
  moreover have "hurwicz_rng exact M 1 = Some (spec_minimax rows columns M)"
    using hurwicz_rng_eq [OF assms(1), of exact 1] by (simp only: spec_hurwicz_one)
  moreover have "hurwicz_arr exact lowest M 0 = Some (spec_maximax rows columns M)"
    using hurwicz_arr_max_lowest [OF assms(1), of exact lowest 0] low(2)
    by (simp only: spec_hurwicz_zero max_absorb2)
  moreover have "hurwicz_rng exact M 0 = Some (spec_maximax rows columns M)"
    using hurwicz_rng_eq [OF assms(1), of exact 0] by (simp only: spec_hurwicz_zero)
  moreover have "minimax_arr M = Some (spec_minimax rows columns M)"
    unfolding minimax_arr_def using assms(1) by (rule minimax_body_eq)
  moreover have "minimax_rng M = Some (spec_minimax rows columns M)"
    unfolding minimax_rng_def using assms(1) by (rule minimax_body_eq)
  ultimately show ?thesis by simp
qed

theorem hurwicz_boundary_coefficients_witness:
  "nonempty_matrix 4 5
     [[15, 10, 0, -6, 17], [3, 14, 8, 9, 2], [1, 5, 14, 20, -3], [7, 19, 10, 2, 0::int]]
   \<and> lowest_below_entries (- (2 ^ 31))
       [[15, 10, 0, -6, 17], [3, 14, 8, 9, 2], [1, 5, 14, 20, -3], [7, 19, 10, 2, 0::int]]
   \<and> hurwicz_arr exact (- (2 ^ 31))
       [[15, 10, 0, -6, 17], [3, 14, 8, 9, 2], [1, 5, 14, 20, -3], [7, 19, 10, 2, 0::int]] 1
     = Some 2
   \<and> hurwicz_rng exact
       [[15, 10, 0, -6, 17], [3, 14, 8, 9, 2], [1, 5, 14, 20, -3], [7, 19, 10, 2, 0::int]] 1
     = Some 2
   \<and> minimax_arr
       [[15, 10, 0, -6, 17], [3, 14, 8, 9, 2], [1, 5, 14, 20, -3], [7, 19, 10, 2, 0::int]]
     = Some 2
   \<and> minimax_rng
       [[15, 10, 0, -6, 17], [3, 14, 8, 9, 2], [1, 5, 14, 20, -3], [7, 19, 10, 2, 0::int]]
     = Some 2
   \<and> hurwicz_arr exact (- (2 ^ 31))
       [[15, 10, 0, -6, 17], [3, 14, 8, 9, 2], [1, 5, 14, 20, -3], [7, 19, 10, 2, 0::int]] 0
     = Some 20
   \<and> hurwicz_rng exact
       [[15, 10, 0, -6, 17], [3, 14, 8, 9, 2], [1, 5, 14, 20, -3], [7, 19, 10, 2, 0::int]] 0
     = Some 20"
proof -
  let ?M = "[[15, 10, 0, -6, 17], [3, 14, 8, 9, 2], [1, 5, 14, 20, -3], [7, 19, 10, 2, 0::int]]"
  have h: "nonempty_matrix 4 5 ?M"
    by (simp add: nonempty_matrix_def is_matrix_def)
  have l: "lowest_below_entries (- (2 ^ 31)) ?M"
    by (simp add: lowest_below_entries_def)
  have v: "spec_minimax 4 5 ?M = 2"
    by (simp add: spec_minimax_def upt_4 upt_5)
  have w: "spec_maximax 4 5 ?M = 20"
    by (simp add: spec_maximax_def row_maximum_def upt_4 upt_5)
  note t = hurwicz_boundary_coefficients [OF h l, unfolded v w]
  show ?thesis
    using h l t by metis
qed

text \<open>
  C4. As stated, for every coefficient, the claim fails for \<open>hurwicz\<close>: with \<^verbatim>\<open>T = double\<close>,
  the matrix \<^verbatim>\<open>{{-DBL_MAX, DBL_MAX}}\<close> and the coefficient 2, the array-based variant
  returns \<^verbatim>\<open>numeric_limits<double>::lowest()\<close> and the generic-range-based variant the
  weighted sum of the row, which is below it.
\<close>

theorem hurwicz_variants_differ_counterexample:
  "nonempty_matrix 1 2 [[- dbl_max, dbl_max]]
   \<and> hurwicz_arr exact (- dbl_max) [[- dbl_max, dbl_max]] 2 = Some (- dbl_max)
   \<and> hurwicz_rng exact [[- dbl_max, dbl_max]] 2 = Some (- (3 * dbl_max))
   \<and> hurwicz_arr exact (- dbl_max) [[- dbl_max, dbl_max]] 2
     \<noteq> hurwicz_rng exact [[- dbl_max, dbl_max]] 2"
proof -
  note at = hurwicz_below_lowest [OF dbl_max_positive]
  have "nonempty_matrix 1 2 [[- dbl_max, dbl_max]]"
    by (simp add: nonempty_matrix_def is_matrix_def)
  moreover have "Some (- dbl_max) \<noteq> Some (- (3 * dbl_max))"
    using at(4) by simp
  ultimately show ?thesis
    by (simp only: at(1,2) simp_thms)
qed

text \<open>
  C4, amended. For every non-empty rectangular matrix \<open>M\<close>, whatever the arithmetic of
  \<^verbatim>\<open>T\<close>, the array-based and the generic-range-based variant of \<open>minimax\<close> return one and the
  same value, and so do the two variants of \<open>savage\<close>. For every coefficient \<open>\<alpha>\<close>, the
  array-based \<open>hurwicz\<close> returns the greater of \<^verbatim>\<open>numeric_limits<T>::lowest()\<close> and the value of
  the generic-range-based one: the two return the same value whenever \<^verbatim>\<open>lowest()\<close> is not
  above the value of the generic-range-based one.
\<close>

theorem variants_agree:
  assumes "nonempty_matrix rows columns M"
  shows "(\<exists>v. minimax_arr M = Some v \<and> minimax_rng M = Some v)
       \<and> (\<exists>v. savage_arr T rows columns M = Some v \<and> savage_rng T rows columns M = Some v)
       \<and> (\<exists>v. hurwicz_rng T M \<alpha> = Some v
              \<and> hurwicz_arr T lowest M \<alpha> = Some (max lowest v)
              \<and> (lowest \<le> v \<longrightarrow> hurwicz_arr T lowest M \<alpha> = Some v))"
proof -
  have "minimax_arr M = Some (spec_minimax rows columns M)"
    and "minimax_rng M = Some (spec_minimax rows columns M)"
    unfolding minimax_arr_def minimax_rng_def using assms by (rule minimax_body_eq)+
  moreover have "savage_arr T rows columns M = Some (spec_savage T rows columns M)"
    and "savage_rng T rows columns M = Some (spec_savage T rows columns M)"
    unfolding savage_arr_def savage_rng_def using assms by (rule savage_body_eq)+
  moreover have "hurwicz_rng T M \<alpha> = Some (spec_hurwicz T rows columns M \<alpha>)"
    using assms by (rule hurwicz_rng_eq)
  moreover have "hurwicz_arr T lowest M \<alpha> = Some (max lowest (spec_hurwicz T rows columns M \<alpha>))"
    using assms by (rule hurwicz_arr_max_lowest)
  ultimately show ?thesis
    by (simp add: max_absorb2)
qed

theorem variants_agree_witness:
  "nonempty_matrix 2 3 [[4, -1, 6], [2, 5, 3::int]]
   \<and> (\<exists>v. minimax_arr [[4, -1, 6], [2, 5, 3::int]] = Some v
          \<and> minimax_rng [[4, -1, 6], [2, 5, 3::int]] = Some v)
   \<and> (\<exists>v. savage_arr int32 2 3 [[4, -1, 6], [2, 5, 3::int]] = Some v
          \<and> savage_rng int32 2 3 [[4, -1, 6], [2, 5, 3::int]] = Some v)
   \<and> - (2 ^ 31) \<le> (- 1 :: int)
   \<and> hurwicz_rng int32 [[4, -1, 6], [2, 5, 3::int]] 2 = Some (- 1)
   \<and> hurwicz_arr int32 (- (2 ^ 31)) [[4, -1, 6], [2, 5, 3::int]] 2 = Some (- 1)"
proof -
  let ?M = "[[4, -1, 6], [2, 5, 3::int]]"
  have h: "nonempty_matrix 2 3 ?M"
    by (simp add: nonempty_matrix_def is_matrix_def)
  have v: "hurwicz_rng int32 ?M 2 = Some (- 1)"
    by (simp add: hurwicz_rng_def hurwicz_row_def int32_def wrap32_def)
  have l: "- (2 ^ 31) \<le> (- 1 :: int)"
    by simp
  note t = variants_agree [OF h, of int32 2 "- (2 ^ 31)", unfolded v]
  show ?thesis
    using h l t v by (metis option.inject)
qed

subsection \<open>The caller's matrix\<close>

lemma call_savage_eq:
  assumes "p < length stack" and "nonempty_matrix rows columns (stack ! p)"
  shows "call_savage T rows columns stack p
       = (Some (spec_savage T rows columns (stack ! p)), stack)"
proof -
  let ?M = "stack ! p"
  have "subscript stack p = Some ?M"
    using assms(1) by (simp add: subscript_def)
  moreover have "(stack @ [?M]) ! length stack = ?M"
    by simp
  moreover have "regret_transform T rows columns ?M = Some (regret_matrix T rows columns ?M)"
    using assms(2) by (rule regret_transform_eq)
  moreover have "min_of_row_maxima (regret_matrix T rows columns ?M)
      = Some (spec_savage T rows columns ?M)"
    using assms(2) by (intro min_of_row_maxima_regret) (simp_all add: nonempty_matrix_def)
  ultimately show ?thesis
    by (simp add: call_savage_def Let_def)
qed

text \<open>
  C5. For every non-empty rectangular matrix \<open>M\<close> of the caller, a call \<open>savage(M)\<close> leaves
  \<open>M\<close>, and every other object of the caller, as it was before the call: the regret
  transform writes to the by-value copy only, which is gone on return. The call returns
  what \<open>savage\<close> computes from \<open>M\<close>.
\<close>

theorem savage_leaves_caller_matrix_unchanged:
  assumes "p < length stack" and "nonempty_matrix rows columns (stack ! p)"
  shows "snd (call_savage T rows columns stack p) = stack
       \<and> fst (call_savage T rows columns stack p) = savage_arr T rows columns (stack ! p)
       \<and> fst (call_savage T rows columns stack p) = savage_rng T rows columns (stack ! p)"
  using call_savage_eq [OF assms] savage_body_eq [OF assms(2)]
  by (simp add: savage_arr_def savage_rng_def)

theorem savage_leaves_caller_matrix_unchanged_witness:
  "0 < length [[[15, 10, 0, -6, 17], [3, 14, 8, 9, 2], [1, 5, 14, 20, -3], [7, 19, 10, 2, 0::int]]]
   \<and> nonempty_matrix 4 5
       ([[[15, 10, 0, -6, 17], [3, 14, 8, 9, 2], [1, 5, 14, 20, -3], [7, 19, 10, 2, 0::int]]] ! 0)
   \<and> call_savage exact 4 5
       [[[15, 10, 0, -6, 17], [3, 14, 8, 9, 2], [1, 5, 14, 20, -3], [7, 19, 10, 2, 0::int]]] 0
     = (Some 15,
        [[[15, 10, 0, -6, 17], [3, 14, 8, 9, 2], [1, 5, 14, 20, -3], [7, 19, 10, 2, 0]]])"
proof -
  let ?M = "[[15, 10, 0, -6, 17], [3, 14, 8, 9, 2], [1, 5, 14, 20, -3], [7, 19, 10, 2, 0::int]]"
  have p: "0 < length [?M]"
    by simp
  have h: "nonempty_matrix 4 5 ([?M] ! 0)"
    by (simp add: nonempty_matrix_def is_matrix_def)
  have v: "savage_arr exact 4 5 ?M = Some 15"
    by code_simp
  have "snd (call_savage exact 4 5 [?M] 0) = [?M] \<and> fst (call_savage exact 4 5 [?M] 0) = Some 15"
    using savage_leaves_caller_matrix_unchanged [OF p h] v by simp
  then have "call_savage exact 4 5 [?M] 0 = (Some 15, [?M])"
    by (simp add: prod_eq_iff)
  then show ?thesis
    using p h by simp
qed

subsection \<open>Regrets are non-negative where no subtraction overflows\<close>

lemma regret_nonneg:
  assumes "subtraction_faithful T rnd rows columns M" and "r < rows" and "c < columns"
  shows "0 \<le> regret T rows M r c"
proof -
  have "M ! r ! c \<in> set (map (\<lambda>r'. M ! r' ! c) [0..<rows])"
    using assms(2) by simp
  then have "M ! r ! c \<le> column_maximum rows M c"
    unfolding column_maximum_def by (intro Max_ge) simp_all
  then have "0 \<le> column_maximum rows M c - M ! r ! c"
    by simp
  moreover have "mono rnd" and "rnd 0 = 0"
    using assms(1) by (simp_all add: subtraction_faithful_def)
  ultimately have "0 \<le> rnd (column_maximum rows M c - M ! r ! c)"
    using monoD [of rnd 0 "column_maximum rows M c - M ! r ! c"] by simp
  moreover have "regret T rows M r c = rnd (column_maximum rows M c - M ! r ! c)"
    using assms by (simp add: regret_def subtraction_faithful_def)
  ultimately show ?thesis
    by simp
qed

lemma spec_savage_nonneg:
  assumes "0 < rows" and "0 < columns" and "subtraction_faithful T rnd rows columns M"
  shows "0 \<le> spec_savage T rows columns M"
proof -
  let ?row_max = "\<lambda>r. Max (set (map (\<lambda>c. regret T rows M r c) [0..<columns]))"
  have "0 \<le> ?row_max r" if "r < rows" for r
  proof -
    have "regret T rows M r 0 \<in> set (map (\<lambda>c. regret T rows M r c) [0..<columns])"
      using assms(2) by simp
    then have "regret T rows M r 0 \<le> ?row_max r"
      by (intro Max_ge) simp_all
    with regret_nonneg [OF assms(3) that assms(2)] show ?thesis
      by simp
  qed
  moreover have "set (map ?row_max [0..<rows]) \<noteq> {}"
    using assms(1) by simp
  ultimately show ?thesis
    unfolding spec_savage_def by (subst Min_ge_iff) auto
qed

lemma regret_matrix_nonneg:
  assumes "subtraction_faithful T rnd rows columns M"
    and "row \<in> set (regret_matrix T rows columns M)" and "x \<in> set row"
  shows "0 \<le> x"
  using assms(2,3) regret_nonneg [OF assms(1)] by (auto simp: regret_matrix_def)

text \<open>
  C9. As stated, for every non-empty rectangular matrix, the claim fails where the
  subtraction of \<^verbatim>\<open>T\<close> overflows: with \<^verbatim>\<open>T = int\<close> of 32 bits and the matrix
  \<^verbatim>\<open>{{INT_MAX}, {-1}}\<close>, the column maximum is \<^verbatim>\<open>INT_MAX\<close>, the regret of the second row is
  \<^verbatim>\<open>INT_MAX - (-1)\<close>, which wraps around to \<^verbatim>\<open>INT_MIN\<close>, and the array-based \<open>savage\<close>
  returns \<^verbatim>\<open>INT_MIN\<close>.
\<close>

theorem savage_negative_on_overflow_counterexample:
  "nonempty_matrix 2 1 [[2147483647], [- 1 :: int]]
   \<and> regret_transform int32 2 1 [[2147483647], [- 1]] = Some [[0], [- 2147483648]]
   \<and> savage_arr int32 2 1 [[2147483647], [- 1]] = Some (- 2147483648)
   \<and> \<not> (0::int) \<le> - 2147483648"
proof -
  have "nonempty_matrix 2 1 [[2147483647], [- 1 :: int]]"
    by (simp add: nonempty_matrix_def is_matrix_def)
  moreover have "regret_transform int32 2 1 [[2147483647], [- 1]] = Some [[0], [- 2147483648]]"
    by code_simp
  moreover have "savage_arr int32 2 1 [[2147483647], [- 1]] = Some (- 2147483648)"
    by code_simp
  ultimately show ?thesis
    by simp
qed

text \<open>
  C9, amended. For every non-empty rectangular matrix \<open>M\<close> on which no subtraction of a
  column maximum and an entry of that column overflows in \<^verbatim>\<open>T\<close> (each is the exact
  difference, or the exact difference rounded monotonically with 0 kept), every entry of
  the regret matrix that the column loop produces is at least 0, and \<open>savage(M)\<close>, in
  either file, is at least 0.
\<close>

theorem savage_nonnegative:
  assumes "nonempty_matrix rows columns M"
    and "subtraction_faithful T rnd rows columns M"
  shows "(\<exists>R. regret_transform T rows columns M = Some R
              \<and> (\<forall>row \<in> set R. \<forall>x \<in> set row. 0 \<le> x))
       \<and> (\<exists>v. savage_arr T rows columns M = Some v
              \<and> savage_rng T rows columns M = Some v \<and> 0 \<le> v)"
proof -
  have "0 \<le> spec_savage T rows columns M"
    using assms by (intro spec_savage_nonneg) (simp_all add: nonempty_matrix_def)
  then show ?thesis
    using regret_transform_eq [OF assms(1)] savage_body_eq [OF assms(1)]
      regret_matrix_nonneg [OF assms(2)]
    by (auto simp: savage_arr_def savage_rng_def)
qed

theorem savage_nonnegative_witness:
  "nonempty_matrix 2 3 [[-4, -1, -6], [-2, -5, -3::int]]
   \<and> subtraction_faithful int32 (\<lambda>x. x) 2 3 [[-4, -1, -6], [-2, -5, -3]]
   \<and> (\<exists>R. regret_transform int32 2 3 [[-4, -1, -6], [-2, -5, -3]] = Some R
          \<and> (\<forall>row \<in> set R. \<forall>x \<in> set row. 0 \<le> x))
   \<and> (\<exists>v. savage_arr int32 2 3 [[-4, -1, -6], [-2, -5, -3]] = Some v
          \<and> savage_rng int32 2 3 [[-4, -1, -6], [-2, -5, -3]] = Some v \<and> 0 \<le> v)"
proof -
  have h: "nonempty_matrix 2 3 [[-4, -1, -6], [-2, -5, -3::int]]"
    by (simp add: nonempty_matrix_def is_matrix_def)
  have e: "subtraction_faithful int32 (\<lambda>x. x) 2 3 [[-4, -1, -6], [-2, -5, -3]]"
    by (simp add: subtraction_faithful_def mono_def column_maximum_def int32_def wrap32_def
        upt_2 upt_3)
  show ?thesis
    using h e savage_nonnegative [OF h e] by simp
qed

subsection \<open>No reduction meets an empty range\<close>

text \<open>
  C10. For every matrix with at least one row and at least one column, every dereference
  of \<^verbatim>\<open>min_element\<close>/\<^verbatim>\<open>max_element\<close> has a value, the column loop of \<open>savage\<close> completes,
  and each of \<open>minimax\<close>, \<open>savage\<close> and \<open>hurwicz\<close>, in either file, returns a value: the
  undefined branch is never taken.
\<close>

theorem criteria_total:
  assumes "nonempty_matrix rows columns M"
  shows "(\<forall>row \<in> set M. \<exists>a b. min_element row = Some a \<and> max_element row = Some b)
       \<and> (\<exists>R. regret_transform T rows columns M = Some R)
       \<and> (\<exists>v. minimax_arr M = Some v) \<and> (\<exists>v. minimax_rng M = Some v)
       \<and> (\<exists>v. savage_arr T rows columns M = Some v) \<and> (\<exists>v. savage_rng T rows columns M = Some v)
       \<and> (\<exists>v. hurwicz_arr T lowest M \<alpha> = Some v) \<and> (\<exists>v. hurwicz_rng T M \<alpha> = Some v)"
proof -
  have "\<exists>a b. min_element row = Some a \<and> max_element row = Some b" if "row \<in> set M" for row
    using matrix_rows_nonempty [OF assms that] by (simp add: min_element_eq max_element_eq)
  moreover have "minimax_arr M = Some (spec_minimax rows columns M)"
    and "minimax_rng M = Some (spec_minimax rows columns M)"
    unfolding minimax_arr_def minimax_rng_def using assms by (rule minimax_body_eq)+
  moreover have "savage_arr T rows columns M = Some (spec_savage T rows columns M)"
    and "savage_rng T rows columns M = Some (spec_savage T rows columns M)"
    unfolding savage_arr_def savage_rng_def using assms by (rule savage_body_eq)+
  ultimately show ?thesis
    using regret_transform_eq [OF assms] hurwicz_arr_eq_general [OF assms]
      hurwicz_rng_eq [OF assms]
    by simp
qed

theorem criteria_total_witness:
  "nonempty_matrix 1 1 [[7::int]]
   \<and> (\<exists>a b. min_element [7::int] = Some a \<and> max_element [7::int] = Some b)
   \<and> (\<exists>R. regret_transform exact 1 1 [[7::int]] = Some R)
   \<and> (\<exists>v. minimax_arr [[7::int]] = Some v) \<and> (\<exists>v. minimax_rng [[7::int]] = Some v)
   \<and> (\<exists>v. savage_arr exact 1 1 [[7::int]] = Some v) \<and> (\<exists>v. savage_rng exact 1 1 [[7::int]] = Some v)
   \<and> (\<exists>v. hurwicz_arr exact (- (2 ^ 31)) [[7::int]] 3 = Some v)
   \<and> (\<exists>v. hurwicz_rng exact [[7::int]] 3 = Some v)"
proof -
  have h: "nonempty_matrix 1 1 [[7::int]]"
    by (simp add: nonempty_matrix_def is_matrix_def)
  show ?thesis
    using h criteria_total [OF h, of exact "- (2 ^ 31)" 3] by simp
qed

subsection \<open>The regret transform applied twice\<close>

text \<open>
  C8. The regret transform is not an involution: there is a non-empty rectangular matrix
  \<open>M\<close> for which the regret transform of the regret transform of \<open>M\<close> is not \<open>M\<close>, in exact
  arithmetic and in that of a 32-bit \<^verbatim>\<open>int\<close> alike.
\<close>

theorem regret_transform_not_involution:
  "\<exists>rows columns (M::int matrix) R R'.
     nonempty_matrix rows columns M
     \<and> regret_transform exact rows columns M = Some R
     \<and> regret_transform exact rows columns R = Some R'
     \<and> regret_transform int32 rows columns M = Some R
     \<and> regret_transform int32 rows columns R = Some R'
     \<and> R' \<noteq> M"
proof -
  have "nonempty_matrix 2 2 [[1, 2], [3, 4::int]]"
    by (simp add: nonempty_matrix_def is_matrix_def)
  moreover have "regret_transform exact 2 2 [[1, 2], [3, 4::int]] = Some [[2, 2], [0, 0]]"
    by code_simp
  moreover have "regret_transform exact 2 2 [[2, 2], [0, 0::int]] = Some [[0, 0], [2, 2]]"
    by code_simp
  moreover have "regret_transform int32 2 2 [[1, 2], [3, 4]] = Some [[2, 2], [0, 0]]"
    by code_simp
  moreover have "regret_transform int32 2 2 [[2, 2], [0, 0]] = Some [[0, 0], [2, 2]]"
    by code_simp
  moreover have "[[0, 0], [2, 2]] \<noteq> [[1, 2], [3, 4::int]]"
    by simp
  ultimately show ?thesis
    by blast
qed

theorem regret_transform_not_involution_witness:
  "(\<exists>rows columns (M::int matrix) R R'.
      nonempty_matrix rows columns M
      \<and> regret_transform exact rows columns M = Some R
      \<and> regret_transform exact rows columns R = Some R'
      \<and> regret_transform int32 rows columns M = Some R
      \<and> regret_transform int32 rows columns R = Some R'
      \<and> R' \<noteq> M)
   \<and> nonempty_matrix 2 2 [[1, 2], [3, 4::int]]
   \<and> regret_transform exact 2 2 [[1, 2], [3, 4::int]] = Some [[2, 2], [0, 0]]
   \<and> regret_transform exact 2 2 [[2, 2], [0, 0::int]] = Some [[0, 0], [2, 2]]"
proof -
  have "nonempty_matrix 2 2 [[1, 2], [3, 4::int]]"
    by (simp add: nonempty_matrix_def is_matrix_def)
  moreover have "regret_transform exact 2 2 [[1, 2], [3, 4::int]] = Some [[2, 2], [0, 0]]"
    by code_simp
  moreover have "regret_transform exact 2 2 [[2, 2], [0, 0::int]] = Some [[0, 0], [2, 2]]"
    by code_simp
  ultimately show ?thesis
    using regret_transform_not_involution by simp
qed

subsection \<open>Permuting rows and columns\<close>

lemma permutation_image: "permutation_of n \<pi> \<Longrightarrow> \<pi> ` {0..<n} = {0..<n}"
  by (simp add: permutation_of_def bij_betw_def atLeast0LessThan)

lemma permutation_bound: "permutation_of n \<pi> \<Longrightarrow> i < n \<Longrightarrow> \<pi> i < n"
  using permutation_image [of n \<pi>] by fastforce

lemma permuted_index_set:
  assumes "permutation_of n \<pi>"
  shows "set (map (\<lambda>i. f (\<pi> i)) [0..<n]) = set (map f [0..<n])"
proof -
  have "set (map (\<lambda>i. f (\<pi> i)) [0..<n]) = f ` \<pi> ` {0..<n}"
    by (simp add: image_image)
  also have "\<dots> = f ` {0..<n}"
    using assms by (simp only: permutation_image)
  finally show ?thesis by simp
qed

lemma permute_rows_entry: "r < rows \<Longrightarrow> permute_rows \<rho> rows M ! r = M ! \<rho> r"
  by (simp add: permute_rows_def)

lemma permute_columns_entry:
  "is_matrix rows columns M \<Longrightarrow> r < rows \<Longrightarrow> c < columns
     \<Longrightarrow> permute_columns \<pi> columns M ! r ! c = M ! r ! \<pi> c"
  by (simp add: permute_columns_def is_matrix_def)

lemma permute_rows_matrix:
  assumes "nonempty_matrix rows columns M" and "permutation_of rows \<rho>"
  shows "nonempty_matrix rows columns (permute_rows \<rho> rows M)"
  using assms permutation_bound [OF assms(2)]
  by (auto simp: nonempty_matrix_def is_matrix_def permute_rows_def)

lemma permute_columns_matrix:
  assumes "nonempty_matrix rows columns M"
  shows "nonempty_matrix rows columns (permute_columns \<pi> columns M)"
  using assms by (auto simp: nonempty_matrix_def is_matrix_def permute_columns_def)

text \<open>The per-row and per-column reductions of a permuted matrix.\<close>

lemma row_values_permute_rows:
  assumes "r < rows"
  shows "row_minimum columns (permute_rows \<rho> rows M) r = row_minimum columns M (\<rho> r)"
    and "row_maximum columns (permute_rows \<rho> rows M) r = row_maximum columns M (\<rho> r)"
    and "weighted_row T columns (permute_rows \<rho> rows M) \<alpha> r = weighted_row T columns M \<alpha> (\<rho> r)"
  using assms
  by (simp_all add: row_minimum_def row_maximum_def weighted_row_def permute_rows_entry)

lemma column_maximum_permute_rows:
  assumes "permutation_of rows \<rho>"
  shows "column_maximum rows (permute_rows \<rho> rows M) c = column_maximum rows M c"
proof -
  have "map (\<lambda>r'. permute_rows \<rho> rows M ! r' ! c) [0..<rows]
      = map (\<lambda>r'. M ! \<rho> r' ! c) [0..<rows]"
    by (intro map_cong refl) (simp add: permute_rows_entry)
  then show ?thesis
    unfolding column_maximum_def
    using permuted_index_set [OF assms, of "\<lambda>r'. M ! r' ! c"] by simp
qed

lemma regret_permute_rows:
  assumes "permutation_of rows \<rho>" and "r < rows"
  shows "regret T rows (permute_rows \<rho> rows M) r c = regret T rows M (\<rho> r) c"
  using assms
  by (simp add: regret_def column_maximum_permute_rows permute_rows_entry)

lemma row_values_permute_columns:
  assumes "is_matrix rows columns M" and "permutation_of columns \<pi>" and "r < rows"
  shows "row_minimum columns (permute_columns \<pi> columns M) r = row_minimum columns M r"
    and "row_maximum columns (permute_columns \<pi> columns M) r = row_maximum columns M r"
    and "weighted_row T columns (permute_columns \<pi> columns M) \<alpha> r = weighted_row T columns M \<alpha> r"
proof -
  have "map (\<lambda>c. permute_columns \<pi> columns M ! r ! c) [0..<columns]
      = map (\<lambda>c. M ! r ! \<pi> c) [0..<columns]"
    using assms by (intro map_cong refl) (simp add: permute_columns_entry)
  then have eq: "set (map (\<lambda>c. permute_columns \<pi> columns M ! r ! c) [0..<columns])
      = set (map (\<lambda>c. M ! r ! c) [0..<columns])"
    using permuted_index_set [OF assms(2), of "\<lambda>c. M ! r ! c"] by simp
  show "row_minimum columns (permute_columns \<pi> columns M) r = row_minimum columns M r"
    and "row_maximum columns (permute_columns \<pi> columns M) r = row_maximum columns M r"
    by (simp_all only: row_minimum_def row_maximum_def eq)
  then show "weighted_row T columns (permute_columns \<pi> columns M) \<alpha> r = weighted_row T columns M \<alpha> r"
    by (simp only: weighted_row_def)
qed

lemma regret_permute_columns:
  assumes "is_matrix rows columns M" and "permutation_of columns \<pi>"
    and "r < rows" and "c < columns"
  shows "regret T rows (permute_columns \<pi> columns M) r c = regret T rows M r (\<pi> c)"
proof -
  have "map (\<lambda>r'. permute_columns \<pi> columns M ! r' ! c) [0..<rows]
      = map (\<lambda>r'. M ! r' ! \<pi> c) [0..<rows]"
    using assms by (intro map_cong refl) (simp add: permute_columns_entry)
  then have "column_maximum rows (permute_columns \<pi> columns M) c = column_maximum rows M (\<pi> c)"
    by (simp only: column_maximum_def)
  then show ?thesis
    using assms by (simp add: regret_def permute_columns_entry)
qed

text \<open>The criteria, as the specification words them, on a permuted matrix.\<close>

lemma spec_permute_rows:
  assumes "permutation_of rows \<rho>"
  shows "spec_minimax rows columns (permute_rows \<rho> rows M) = spec_minimax rows columns M"
    and "spec_savage T rows columns (permute_rows \<rho> rows M) = spec_savage T rows columns M"
    and "set (map (weighted_row T columns (permute_rows \<rho> rows M) \<alpha>) [0..<rows])
       = set (map (weighted_row T columns M \<alpha>) [0..<rows])"
proof -
  let ?M' = "permute_rows \<rho> rows M"
  have "map (row_minimum columns ?M') [0..<rows]
      = map (\<lambda>r. row_minimum columns M (\<rho> r)) [0..<rows]"
    by (intro map_cong refl) (simp add: row_values_permute_rows)
  then show "spec_minimax rows columns ?M' = spec_minimax rows columns M"
    using permuted_index_set [OF assms, of "row_minimum columns M"]
    by (simp only: spec_minimax_rows)
  let ?worst = "\<lambda>M r. Max (set (map (\<lambda>c. regret T rows M r c) [0..<columns]))"
  have "map (?worst ?M') [0..<rows] = map (\<lambda>r. ?worst M (\<rho> r)) [0..<rows]"
    using assms by (intro map_cong refl) (simp add: regret_permute_rows)
  then show "spec_savage T rows columns ?M' = spec_savage T rows columns M"
    using permuted_index_set [OF assms, of "?worst M"]
    by (simp only: spec_savage_def)
  have "map (weighted_row T columns ?M' \<alpha>) [0..<rows]
      = map (\<lambda>r. weighted_row T columns M \<alpha> (\<rho> r)) [0..<rows]"
    by (intro map_cong refl) (simp add: row_values_permute_rows)
  then show "set (map (weighted_row T columns ?M' \<alpha>) [0..<rows])
      = set (map (weighted_row T columns M \<alpha>) [0..<rows])"
    using permuted_index_set [OF assms, of "weighted_row T columns M \<alpha>"]
    by (simp only:)
qed

lemma spec_permute_columns:
  assumes "is_matrix rows columns M" and "permutation_of columns \<pi>"
  shows "spec_minimax rows columns (permute_columns \<pi> columns M) = spec_minimax rows columns M"
    and "spec_savage T rows columns (permute_columns \<pi> columns M) = spec_savage T rows columns M"
    and "map (weighted_row T columns (permute_columns \<pi> columns M) \<alpha>) [0..<rows]
       = map (weighted_row T columns M \<alpha>) [0..<rows]"
proof -
  let ?M' = "permute_columns \<pi> columns M"
  have "map (row_minimum columns ?M') [0..<rows] = map (row_minimum columns M) [0..<rows]"
    using assms by (intro map_cong refl) (simp add: row_values_permute_columns)
  then show "spec_minimax rows columns ?M' = spec_minimax rows columns M"
    by (simp only: spec_minimax_rows)
  let ?worst = "\<lambda>M r. Max (set (map (\<lambda>c. regret T rows M r c) [0..<columns]))"
  have "?worst ?M' r = ?worst M r" if "r < rows" for r
  proof -
    have "map (\<lambda>c. regret T rows ?M' r c) [0..<columns]
        = map (\<lambda>c. regret T rows M r (\<pi> c)) [0..<columns]"
      using assms that by (intro map_cong refl) (simp add: regret_permute_columns)
    then show ?thesis
      using permuted_index_set [OF assms(2), of "\<lambda>c. regret T rows M r c"]
      by (simp only:)
  qed
  then have "map (?worst ?M') [0..<rows] = map (?worst M) [0..<rows]"
    by (intro map_cong refl) simp
  then show "spec_savage T rows columns ?M' = spec_savage T rows columns M"
    by (simp only: spec_savage_def)
  show "map (weighted_row T columns ?M' \<alpha>) [0..<rows] = map (weighted_row T columns M \<alpha>) [0..<rows]"
    using assms by (intro map_cong refl) (simp add: row_values_permute_columns)
qed

lemma criteria_permute_rows:
  assumes "nonempty_matrix rows columns M" and "permutation_of rows \<rho>"
  shows "minimax_arr (permute_rows \<rho> rows M) = minimax_arr M"
    and "minimax_rng (permute_rows \<rho> rows M) = minimax_rng M"
    and "savage_arr T rows columns (permute_rows \<rho> rows M) = savage_arr T rows columns M"
    and "savage_rng T rows columns (permute_rows \<rho> rows M) = savage_rng T rows columns M"
    and "hurwicz_arr T lowest (permute_rows \<rho> rows M) \<alpha> = hurwicz_arr T lowest M \<alpha>"
    and "hurwicz_rng T (permute_rows \<rho> rows M) \<alpha> = hurwicz_rng T M \<alpha>"
proof -
  note permuted = permute_rows_matrix [OF assms]
  note spec = spec_permute_rows [OF assms(2)]
  show "minimax_arr (permute_rows \<rho> rows M) = minimax_arr M"
    and "minimax_rng (permute_rows \<rho> rows M) = minimax_rng M"
    unfolding minimax_arr_def minimax_rng_def
    by (simp_all only: minimax_body_eq [OF permuted] minimax_body_eq [OF assms(1)] spec)
  show "savage_arr T rows columns (permute_rows \<rho> rows M) = savage_arr T rows columns M"
    and "savage_rng T rows columns (permute_rows \<rho> rows M) = savage_rng T rows columns M"
    unfolding savage_arr_def savage_rng_def
    by (simp_all only: savage_body_eq [OF permuted] savage_body_eq [OF assms(1)] spec)
  show "hurwicz_arr T lowest (permute_rows \<rho> rows M) \<alpha> = hurwicz_arr T lowest M \<alpha>"
    by (simp only: hurwicz_arr_eq_general [OF permuted] hurwicz_arr_eq_general [OF assms(1)] spec)
  show "hurwicz_rng T (permute_rows \<rho> rows M) \<alpha> = hurwicz_rng T M \<alpha>"
    by (simp only: hurwicz_rng_eq [OF permuted] hurwicz_rng_eq [OF assms(1)]
        spec_hurwicz_def spec)
qed

lemma criteria_permute_columns:
  assumes "nonempty_matrix rows columns M" and "permutation_of columns \<pi>"
  shows "minimax_arr (permute_columns \<pi> columns M) = minimax_arr M"
    and "minimax_rng (permute_columns \<pi> columns M) = minimax_rng M"
    and "savage_arr T rows columns (permute_columns \<pi> columns M) = savage_arr T rows columns M"
    and "savage_rng T rows columns (permute_columns \<pi> columns M) = savage_rng T rows columns M"
    and "hurwicz_arr T lowest (permute_columns \<pi> columns M) \<alpha> = hurwicz_arr T lowest M \<alpha>"
    and "hurwicz_rng T (permute_columns \<pi> columns M) \<alpha> = hurwicz_rng T M \<alpha>"
proof -
  have mat: "is_matrix rows columns M"
    using assms(1) by (simp add: nonempty_matrix_def)
  note permuted = permute_columns_matrix [OF assms(1), of \<pi>]
  note spec = spec_permute_columns [OF mat assms(2)]
  show "minimax_arr (permute_columns \<pi> columns M) = minimax_arr M"
    and "minimax_rng (permute_columns \<pi> columns M) = minimax_rng M"
    unfolding minimax_arr_def minimax_rng_def
    by (simp_all only: minimax_body_eq [OF permuted] minimax_body_eq [OF assms(1)] spec)
  show "savage_arr T rows columns (permute_columns \<pi> columns M) = savage_arr T rows columns M"
    and "savage_rng T rows columns (permute_columns \<pi> columns M) = savage_rng T rows columns M"
    unfolding savage_arr_def savage_rng_def
    by (simp_all only: savage_body_eq [OF permuted] savage_body_eq [OF assms(1)] spec)
  show "hurwicz_arr T lowest (permute_columns \<pi> columns M) \<alpha> = hurwicz_arr T lowest M \<alpha>"
    by (simp only: hurwicz_arr_eq_general [OF permuted] hurwicz_arr_eq_general [OF assms(1)] spec)
  show "hurwicz_rng T (permute_columns \<pi> columns M) \<alpha> = hurwicz_rng T M \<alpha>"
    by (simp only: hurwicz_rng_eq [OF permuted] hurwicz_rng_eq [OF assms(1)]
        spec_hurwicz_def spec)
qed

text \<open>
  C7. For every non-empty rectangular matrix \<open>M\<close>, every permutation of the rows of \<open>M\<close>
  and every permutation of the columns of \<open>M\<close> leaves the results of \<open>minimax\<close>, \<open>savage\<close>
  and \<open>hurwicz\<close> (for every coefficient), in either file, unchanged, whatever the
  arithmetic of \<^verbatim>\<open>T\<close>.
\<close>

theorem criteria_permutation_invariant:
  assumes "nonempty_matrix rows columns M"
    and "permutation_of rows \<rho>"
    and "permutation_of columns \<pi>"
  shows "minimax_arr (permute_rows \<rho> rows M) = minimax_arr M
       \<and> minimax_rng (permute_rows \<rho> rows M) = minimax_rng M
       \<and> savage_arr T rows columns (permute_rows \<rho> rows M) = savage_arr T rows columns M
       \<and> savage_rng T rows columns (permute_rows \<rho> rows M) = savage_rng T rows columns M
       \<and> hurwicz_arr T lowest (permute_rows \<rho> rows M) \<alpha> = hurwicz_arr T lowest M \<alpha>
       \<and> hurwicz_rng T (permute_rows \<rho> rows M) \<alpha> = hurwicz_rng T M \<alpha>
       \<and> minimax_arr (permute_columns \<pi> columns M) = minimax_arr M
       \<and> minimax_rng (permute_columns \<pi> columns M) = minimax_rng M
       \<and> savage_arr T rows columns (permute_columns \<pi> columns M) = savage_arr T rows columns M
       \<and> savage_rng T rows columns (permute_columns \<pi> columns M) = savage_rng T rows columns M
       \<and> hurwicz_arr T lowest (permute_columns \<pi> columns M) \<alpha> = hurwicz_arr T lowest M \<alpha>
       \<and> hurwicz_rng T (permute_columns \<pi> columns M) \<alpha> = hurwicz_rng T M \<alpha>"
  using criteria_permute_rows [OF assms(1,2)] criteria_permute_columns [OF assms(1,3)]
  by simp

theorem criteria_permutation_invariant_witness:
  "nonempty_matrix 2 3 [[4, -1, 6], [2, 5, 3::int]]
   \<and> permutation_of 2 (\<lambda>r. 1 - r)
   \<and> permutation_of 3 (\<lambda>c. (c + 1) mod 3)
   \<and> permute_rows (\<lambda>r. 1 - r) 2 [[4, -1, 6], [2, 5, 3::int]] = [[2, 5, 3], [4, -1, 6]]
   \<and> permute_columns (\<lambda>c. (c + 1) mod 3) 3 [[4, -1, 6], [2, 5, 3::int]] = [[-1, 6, 4], [5, 3, 2]]
   \<and> minimax_arr [[2, 5, 3], [4, -1, 6]] = minimax_arr [[4, -1, 6], [2, 5, 3::int]]
   \<and> minimax_rng [[2, 5, 3], [4, -1, 6]] = minimax_rng [[4, -1, 6], [2, 5, 3::int]]
   \<and> savage_arr exact 2 3 [[2, 5, 3], [4, -1, 6]] = savage_arr exact 2 3 [[4, -1, 6], [2, 5, 3::int]]
   \<and> savage_rng exact 2 3 [[2, 5, 3], [4, -1, 6]] = savage_rng exact 2 3 [[4, -1, 6], [2, 5, 3::int]]
   \<and> hurwicz_arr exact (- (2 ^ 31)) [[2, 5, 3], [4, -1, 6]] 2
     = hurwicz_arr exact (- (2 ^ 31)) [[4, -1, 6], [2, 5, 3::int]] 2
   \<and> hurwicz_rng exact [[2, 5, 3], [4, -1, 6]] 2 = hurwicz_rng exact [[4, -1, 6], [2, 5, 3::int]] 2
   \<and> minimax_arr [[-1, 6, 4], [5, 3, 2]] = minimax_arr [[4, -1, 6], [2, 5, 3::int]]
   \<and> minimax_rng [[-1, 6, 4], [5, 3, 2]] = minimax_rng [[4, -1, 6], [2, 5, 3::int]]
   \<and> savage_arr exact 2 3 [[-1, 6, 4], [5, 3, 2]] = savage_arr exact 2 3 [[4, -1, 6], [2, 5, 3::int]]
   \<and> savage_rng exact 2 3 [[-1, 6, 4], [5, 3, 2]] = savage_rng exact 2 3 [[4, -1, 6], [2, 5, 3::int]]
   \<and> hurwicz_arr exact (- (2 ^ 31)) [[-1, 6, 4], [5, 3, 2]] 2
     = hurwicz_arr exact (- (2 ^ 31)) [[4, -1, 6], [2, 5, 3::int]] 2
   \<and> hurwicz_rng exact [[-1, 6, 4], [5, 3, 2]] 2 = hurwicz_rng exact [[4, -1, 6], [2, 5, 3::int]] 2"
proof -
  let ?M = "[[4, -1, 6], [2, 5, 3::int]]"
  have h: "nonempty_matrix 2 3 ?M"
    by (simp add: nonempty_matrix_def is_matrix_def)
  have "{..<2::nat} = {0, 1}" and three: "{..<3::nat} = {0, 1, 2}"
    by auto
  then have r: "permutation_of 2 (\<lambda>r. 1 - r)"
    by (simp add: permutation_of_def bij_betw_def inj_on_def insert_commute)
  have c: "permutation_of 3 (\<lambda>c. (c + 1) mod 3)"
    unfolding permutation_of_def bij_betw_def three by (auto simp: inj_on_def)
  have pr: "permute_rows (\<lambda>r. 1 - r) 2 ?M = [[2, 5, 3], [4, -1, 6]]"
    by (simp add: permute_rows_def upt_2)
  have pc: "permute_columns (\<lambda>c. (c + 1) mod 3) 3 ?M = [[-1, 6, 4], [5, 3, 2]]"
    by (simp add: permute_columns_def upt_3)
  note t = criteria_permutation_invariant [OF h r c, of exact "- (2 ^ 31)" 2, unfolded pr pc]
  show ?thesis
    using h r c pr pc t by metis
qed

end
